theory Spec2Isabelle
  imports Complex_Main "HOL-Library.AList"
begin

section \<open>Python values and exceptions\<close>

text \<open>
  The module \<^verbatim>\<open>mvpa2/datasets/mri.py\<close> is embedded function by function. Exceptions are
  values of a sum type (\<open>Inl\<close> the exception), warnings issued through \<^verbatim>\<open>warning(...)\<close>
  are collected in a list of messages, and in-place modification of an argument is made
  explicit by returning the argument as it is after the call. Calls of \<^verbatim>\<open>debug\<close> only
  print diagnostics and are left out. A leading underscore of a Python name is dropped
  (\<^verbatim>\<open>_hdr2dict\<close> is \<open>hdr2dict\<close>), since an Isabelle name cannot start with one.
\<close>

datatype pyerr = ValueError | TypeError | AttributeError | KeyError | IndexError | IOError

text \<open>
  Values of header fields and of dataset attributes. \<open>PyNaN\<close> is the floating-point
  not-a-number; every other float is a real number.
\<close>

datatype pyval =
    PyNone
  | PyNaN
  | PyFloat real
  | PyInt int
  | PyStr string
  | PyTuple "pyval list"

text \<open>
  \<^verbatim>\<open>str(v) == 'nan'\<close>: Python prints a not-a-number float (also a zero-dimensional array
  holding one) as \<^verbatim>\<open>nan\<close>, and a string as itself; no other value prints as \<^verbatim>\<open>nan\<close>.
\<close>

fun str_is_nan :: "pyval \<Rightarrow> bool" where
  "str_is_nan PyNaN = True"
| "str_is_nan (PyStr s) = (s = ''nan'')"
| "str_is_nan _ = False"

section \<open>Arrays\<close>

text \<open>
  A numpy array is its shape and its elements in C order (last axis fastest). An array
  object always holds as many elements as its shape says.
\<close>

record ndarray =
  shape :: "nat list"
  elems :: "real list"

definition wf_array :: "ndarray \<Rightarrow> bool" where
  "wf_array arr = (length (elems arr) = prod_list (shape arr))"

text \<open>
  The element at a multi-index: the C-order offset of index \<open>idx\<close> in shape \<open>shp\<close>.
\<close>

fun ravel :: "nat list \<Rightarrow> nat list \<Rightarrow> nat" where
  "ravel (n # shp) (i # idx) = i * prod_list shp + ravel shp idx"
| "ravel _ _ = 0"

definition item :: "ndarray \<Rightarrow> nat list \<Rightarrow> real" where
  "item arr idx = elems arr ! ravel (shape arr) idx"

text \<open>
  Exchanging the two axes of an \<open>r\<close> by \<open>c\<close> matrix stored row by row: element \<open>(j, i)\<close>
  of the result is element \<open>(i, j)\<close> of the argument.
\<close>

definition transpose2 :: "nat \<Rightarrow> nat \<Rightarrow> 'a list \<Rightarrow> 'a list" where
  "transpose2 r c xs = map (\<lambda>k. xs ! ((k mod r) * c + k div r)) [0..<r * c]"

text \<open>
  \<^verbatim>\<open>np.rollaxis(arr, -1)\<close> moves the last axis to the front and keeps the order of the
  others; \<^verbatim>\<open>np.rollaxis(arr, 0, n)\<close> on an array of \<open>n\<close> axes moves the first axis to the
  end. Both return a new array object (a view) and leave \<^verbatim>\<open>arr\<close> as it is. With the
  leading (resp. trailing) axes taken together, each is a transposition of a matrix.
\<close>

definition rollaxis_last_to_front :: "ndarray \<Rightarrow> ndarray" where
  "rollaxis_last_to_front arr =
     \<lparr>shape = last (shape arr) # butlast (shape arr),
      elems = transpose2 (prod_list (butlast (shape arr))) (last (shape arr)) (elems arr)\<rparr>"

definition rollaxis_front_to_last :: "ndarray \<Rightarrow> ndarray" where
  "rollaxis_front_to_last arr =
     \<lparr>shape = tl (shape arr) @ [hd (shape arr)],
      elems = transpose2 (hd (shape arr)) (prod_list (tl (shape arr))) (elems arr)\<rparr>"

text \<open>
  \<^verbatim>\<open>_get_txyz_shaped\<close> (lines 329-334) and \<^verbatim>\<open>_get_xyzt_shaped\<close> (lines 337-342).
\<close>

definition get_txyz_shaped :: "ndarray \<Rightarrow> ndarray" where
  "get_txyz_shaped arr =
     (if length (shape arr) = 4 then rollaxis_last_to_front arr else arr)"

definition get_xyzt_shaped :: "ndarray \<Rightarrow> ndarray" where
  "get_xyzt_shaped arr =
     (if length (shape arr) = 4 then rollaxis_front_to_last arr else arr)"

section \<open>Headers, images and the image library\<close>

text \<open>
  A Python dictionary with string keys is an association list, looked up with \<open>map_of\<close>
  and written with \<open>AList.update\<close> (an existing key keeps its place, a new one is added).
\<close>

type_synonym pydict = "(string \<times> pyval) list"

type_synonym affine = "real list list"

text \<open>
  An image header object of the library: its class name and, for the header classes that
  are mappings (NIfTI, Analyze), its fields. \<open>hdr_items = None\<close> is a header without the
  mapping interface (MINC): \<^verbatim>\<open>dict(hdr)\<close>, \<^verbatim>\<open>k in hdr\<close> and \<^verbatim>\<open>hdr[k] = v\<close> raise a TypeError
  on it. Every header object has the method \<^verbatim>\<open>get_data_dtype\<close>; a dictionary has not.
\<close>

record header =
  hdr_class :: string
  hdr_items :: "pydict option"

text \<open>
  An attribute of the module \<^verbatim>\<open>nibabel\<close>: an image class (its name, and whether it is a
  subclass of \<^verbatim>\<open>SpatialImage\<close>), a header class (given by the header its constructor
  returns when called without arguments), or something that is not a class.
\<close>

datatype nibobj = ImgClass string bool | HdrClass header | NibOther

fun is_type :: "nibobj \<Rightarrow> bool" where
  "is_type NibOther = False"
| "is_type _ = True"

fun type_name :: "nibobj \<Rightarrow> string" where
  "type_name (ImgClass n b) = n"
| "type_name (HdrClass h) = hdr_class h"
| "type_name NibOther = []"

text \<open>
  An image object (an instance of \<^verbatim>\<open>SpatialImage\<close>): \<^verbatim>\<open>img.__class__.__name__\<close>,
  \<^verbatim>\<open>img.get_data()\<close>, \<^verbatim>\<open>img.header\<close> and \<^verbatim>\<open>img.affine\<close>; \<^verbatim>\<open>img.shape\<close> is the shape of
  the data array.
\<close>

record image =
  img_class :: string
  img_data :: ndarray
  img_header :: header
  img_affine :: affine

text \<open>
  The image library is a parameter of the model: what its functions and the methods of its
  header objects return is not fixed by this module.
  \<^item> \<open>nib_getattr\<close>: \<^verbatim>\<open>getattr(nibabel, name)\<close>, \<open>None\<close> when the module has no such attribute;
  \<^item> \<open>nib_load\<close>: \<^verbatim>\<open>nibabel.load(filename)\<close>, a new image object or an exception;
  \<^item> \<open>set_data_shape\<close>: the header after \<^verbatim>\<open>header.set_data_shape(shape)\<close>;
  \<^item> \<open>get_best_affine\<close>: \<^verbatim>\<open>header.get_best_affine()\<close>, \<open>None\<close> when the header has no such
    method;
  \<^item> \<open>get_zooms\<close>: \<^verbatim>\<open>header.get_zooms()\<close>;
  \<^item> \<open>hdr_store\<close>: the value that the field \<open>k\<close> of a header of class \<open>c\<close> holds after
    \<^verbatim>\<open>hdr[k] = v\<close> (a field has a fixed type and width, to which the assigned value is
    converted), or the exception that the assignment raises;
  \<^item> \<open>new_image\<close>: \<^verbatim>\<open>imgtype(data, None, imghdr)\<close>, the image object that the constructor of
    the class \<^verbatim>\<open>imgtype\<close> builds from the data, no affine and the header (\<open>None\<close> for no
    header), or the exception it raises. What the header of the new image holds is the
    constructor's business: the constructors of nibabel's NIfTI and Analyze images copy the
    header, record the shape of the data in it and reset \<^verbatim>\<open>scl_slope\<close> and \<^verbatim>\<open>scl_inter\<close> to
    not-a-number.
\<close>

record nibabel =
  nib_getattr :: "string \<Rightarrow> nibobj option"
  nib_load :: "string \<Rightarrow> pyerr + image"
  set_data_shape :: "header \<Rightarrow> nat list \<Rightarrow> header"
  get_best_affine :: "header \<Rightarrow> affine option"
  get_zooms :: "header \<Rightarrow> real list"
  hdr_store :: "string \<Rightarrow> string \<Rightarrow> pyval \<Rightarrow> pyerr + pyval"
  new_image :: "nibobj \<Rightarrow> ndarray \<Rightarrow> header option \<Rightarrow> pyerr + image"

section \<open>Header codec\<close>

definition warn_scl :: string where
  "warn_scl = ''Detected incorrect (nan) scl_ fields. Resetting to scl_slope=1.0 and scl_inter=0.0''"

text \<open>\<^verbatim>\<open>kv.get(k, '')\<close>\<close>

definition dict_get :: "pydict \<Rightarrow> string \<Rightarrow> pyval" where
  "dict_get kv k = (case map_of kv k of None \<Rightarrow> PyStr [] | Some v \<Rightarrow> v)"

text \<open>
  Lines 40-42 of \<^verbatim>\<open>_hdr2dict\<close>: the test \<^verbatim>\<open>scl_slope == scl_inter == 'nan'\<close> on the two
  fields as strings.
\<close>

definition scl_nan :: "pydict \<Rightarrow> bool" where
  "scl_nan kv =
     (let scl_slope = dict_get kv ''scl_slope'';
          scl_inter = dict_get kv ''scl_inter''
      in str_is_nan scl_slope \<and> str_is_nan scl_inter)"

text \<open>
  \<^verbatim>\<open>_hdr2dict\<close> (lines 34-48). The result is the list of warnings issued and the
  dictionary, or the exception of \<^verbatim>\<open>dict(hdr)\<close>.
\<close>

definition hdr2dict :: "header \<Rightarrow> string list \<times> (pyerr + pydict)" where
  "hdr2dict hdr =
     (case hdr_items hdr of
        None \<Rightarrow> ([], Inl TypeError)
      | Some kv \<Rightarrow>
          if scl_nan kv
          then ([warn_scl],
                Inr (AList.update ''hdrtype'' (PyStr (hdr_class hdr))
                      (AList.update ''scl_inter'' (PyFloat 0)
                        (AList.update ''scl_slope'' (PyFloat 1) kv))))
          else ([], Inr (AList.update ''hdrtype'' (PyStr (hdr_class hdr)) kv)))"

text \<open>
  \<^verbatim>\<open>hdr[k] = v\<close> on a header object: the fields of a header are fixed by its class, and
  assigning to a name that is not a field raises a ValueError. An existing field takes the
  value that the library makes of \<open>v\<close> for this field, which need not be \<open>v\<close> itself.
\<close>

definition hdr_setitem :: "nibabel \<Rightarrow> header \<Rightarrow> string \<Rightarrow> pyval \<Rightarrow> pyerr + header" where
  "hdr_setitem nib hdr k v =
     (case hdr_items hdr of
        None \<Rightarrow> Inl TypeError
      | Some its \<Rightarrow>
          (case map_of its k of
             None \<Rightarrow> Inl ValueError
           | Some old \<Rightarrow>
               (case hdr_store nib (hdr_class hdr) k v of
                  Inl e \<Rightarrow> Inl e
                | Inr v' \<Rightarrow> Inr (hdr\<lparr>hdr_items := Some (AList.update k v' its)\<rparr>))))"

text \<open>
  \<^verbatim>\<open>_dict2hdr\<close> (lines 51-59): the loop over the keys of \<open>kv\<close>, then the function.
\<close>

fun dict2hdr_loop :: "nibabel \<Rightarrow> pydict \<Rightarrow> string list \<Rightarrow> header \<Rightarrow> pyerr + header" where
  "dict2hdr_loop nib kv [] hdr = Inr hdr"
| "dict2hdr_loop nib kv (k # ks) hdr =
     (if k = ''hdrtype'' then dict2hdr_loop nib kv ks hdr
      else (case map_of kv k of
              None \<Rightarrow> Inl KeyError
            | Some v \<Rightarrow>
                (case hdr_setitem nib hdr k v of
                   Inl e \<Rightarrow> Inl e
                 | Inr hdr' \<Rightarrow> dict2hdr_loop nib kv ks hdr')))"

definition dict2hdr :: "nibabel \<Rightarrow> pydict \<Rightarrow> pyerr + header" where
  "dict2hdr nib kv =
     (case map_of kv ''hdrtype'' of
        None \<Rightarrow> Inl KeyError
      | Some (PyStr name) \<Rightarrow>
          (case nib_getattr nib name of
             None \<Rightarrow> Inl AttributeError
           | Some (HdrClass h0) \<Rightarrow> dict2hdr_loop nib kv (map fst kv) h0
           | Some other \<Rightarrow> Inl TypeError)
      | Some other \<Rightarrow> Inl TypeError)"

section \<open>Image accessor\<close>

text \<open>
  \<^verbatim>\<open>np.reshape(a, newshape)\<close> gives a new array object with the same elements in the same
  order, and raises a ValueError when the sizes differ.
\<close>

definition np_reshape :: "ndarray \<Rightarrow> nat list \<Rightarrow> pyerr + ndarray" where
  "np_reshape arr newshape =
     (if prod_list newshape = length (elems arr)
      then Inr \<lparr>shape = newshape, elems = elems arr\<rparr>
      else Inl ValueError)"

text \<open>
  \<^verbatim>\<open>np.vstack(arrays)\<close>: every array is first made at least two-dimensional, then they are
  joined along the first axis; the other axes must agree.
\<close>

definition atleast_2d :: "ndarray \<Rightarrow> ndarray" where
  "atleast_2d arr =
     (case shape arr of
        [] \<Rightarrow> arr\<lparr>shape := [1, 1]\<rparr>
      | [n] \<Rightarrow> arr\<lparr>shape := [1, n]\<rparr>
      | n # m # shp \<Rightarrow> arr)"

definition np_vstack :: "ndarray list \<Rightarrow> pyerr + ndarray" where
  "np_vstack arrs =
     (case map atleast_2d arrs of
        [] \<Rightarrow> Inl ValueError
      | b # bs \<Rightarrow>
          if list_all (\<lambda>c. tl (shape c) = tl (shape b)) bs
          then Inr \<lparr>shape = sum_list (map (\<lambda>c. hd (shape c)) (b # bs)) # tl (shape b),
                    elems = concat (map elems (b # bs))\<rparr>
          else Inl ValueError)"

text \<open>
  What a caller can pass as an image source: \<^verbatim>\<open>None\<close>, a file name, an image object, a
  list or tuple of sources, a plain array, or any other object. An image object inside a
  source is the state of that object; the functions below return the source as it is after
  the call, so that a change made to a caller's object is visible. Distinct positions of a
  source hold distinct objects.
\<close>

datatype src =
    SrcNone
  | SrcFile string
  | SrcImg image
  | SrcSeq "src list"
  | SrcArray ndarray
  | SrcOther

text \<open>
  The triple \<^verbatim>\<open>(imgdata, imghdr, img)\<close> that the accessor returns. \<open>ld_hdr\<close> is the object
  \<^verbatim>\<open>img.header\<close>. \<open>ld_own\<close> records the identity of the array object: it is \<open>True\<close> when
  \<open>ld_data\<close> is the very array object that the image holds (so that an assignment to
  its \<^verbatim>\<open>shape\<close> changes the image), and \<open>False\<close> when it is a new array object.
\<close>

record loaded =
  ld_data :: ndarray
  ld_hdr :: header
  ld_img :: image
  ld_own :: bool

definition warn_5d :: string where
  "warn_5d = ''dataset with 5th dimension found but 4th is empty (AFNI  NIFTI conversion syndrome) - squeezing data to 4D''"

text \<open>
  The test of line 80 of \<^verbatim>\<open>_img2data\<close>: \<^verbatim>\<open>len(img.shape) == 5 and img.shape[3] == 1\<close>.
\<close>

definition squeezable :: "image \<Rightarrow> bool" where
  "squeezable img =
     (length (shape (img_data img)) = 5 \<and> shape (img_data img) ! 3 = 1)"

text \<open>
  \<^verbatim>\<open>_img2data\<close>, lines 76-94, for an image object: the image object after the call, the
  warnings and the result. \<^verbatim>\<open>header.set_data_shape\<close> changes the header object of the
  image in place; \<^verbatim>\<open>np.reshape\<close> and \<^verbatim>\<open>np.rollaxis\<close> return new array objects, while
  \<^verbatim>\<open>_get_txyz_shaped\<close> returns its argument itself when it does not roll.
\<close>

definition img2data_image :: "nibabel \<Rightarrow> image \<Rightarrow> image \<times> string list \<times> (pyerr + loaded)" where
  "img2data_image nib img =
     (let data = img_data img; header = img_header img; s = shape data
      in if squeezable img
         then
           (let newshape = [s ! 0, s ! 1, s ! 2, s ! 4];
                header' = set_data_shape nib header newshape;
                img' = img\<lparr>img_header := header'\<rparr>
            in (case np_reshape data newshape of
                  Inl e \<Rightarrow> (img', [warn_5d], Inl e)
                | Inr data' \<Rightarrow>
                    (img', [warn_5d],
                     Inr \<lparr>ld_data = get_txyz_shaped data', ld_hdr = header',
                          ld_img = img', ld_own = False\<rparr>)))
         else (img, [], Inr \<lparr>ld_data = get_txyz_shaped data, ld_hdr = header,
                              ld_img = img, ld_own = (length s \<noteq> 4)\<rparr>))"

text \<open>
  \<^verbatim>\<open>_img2data\<close> (lines 62-97). The first component is the source after the call. An image
  loaded from a file is a new object, and every image that \<^verbatim>\<open>nibabel.load\<close> returns is a
  \<^verbatim>\<open>SpatialImage\<close>.
\<close>

definition img2data :: "nibabel \<Rightarrow> src \<Rightarrow> src \<times> string list \<times> (pyerr + loaded option)" where
  "img2data nib source =
     (case source of
        SrcNone \<Rightarrow> (source, [], Inr None)
      | SrcFile name \<Rightarrow>
          (case nib_load nib name of
             Inl e \<Rightarrow> (source, [], Inl e)
           | Inr img \<Rightarrow>
               (case img2data_image nib img of
                  (img', w, Inl e) \<Rightarrow> (source, w, Inl e)
                | (img', w, Inr ld) \<Rightarrow> (source, w, Inr (Some ld))))
      | SrcImg img \<Rightarrow>
          (case img2data_image nib img of
             (img', w, Inl e) \<Rightarrow> (SrcImg img', w, Inl e)
           | (img', w, Inr ld) \<Rightarrow> (SrcImg img', w, Inr (Some ld)))
      | other \<Rightarrow> (source, [], Inr None))"

text \<open>
  The dimensionality enforcement of \<^verbatim>\<open>_load_anyimg\<close> (lines 397-411): the new shape, \<open>None\<close>
  when the shape needs no change, or the ValueError of line 409.
\<close>

definition enforce_shape :: "nat \<Rightarrow> nat list \<Rightarrow> pyerr + nat list option" where
  "enforce_shape enforce_dim shp =
     (let lshape = length shp
      in if lshape < enforce_dim
         then Inr (Some (replicate (enforce_dim - lshape) 1 @ shp))
         else if lshape > enforce_dim
         then (let bogus_dims = lshape - enforce_dim
               in if take bogus_dims shp \<noteq> replicate bogus_dims 1
                  then Inl ValueError
                  else Inr (Some (drop bogus_dims shp)))
         else Inr None)"

text \<open>
  Lines 397-423 of \<^verbatim>\<open>_load_anyimg\<close>, given what was loaded. The assignment
  \<^verbatim>\<open>imgdata.shape = new_shape\<close> (line 418) changes the array object in place: when that
  object is the image's own array, the image changes with it.
\<close>

definition enforce_loaded :: "nat option \<Rightarrow> loaded option \<Rightarrow> pyerr + loaded option" where
  "enforce_loaded enforce_dim res =
     (case res of
        None \<Rightarrow> Inr None
      | Some ld \<Rightarrow>
          (case enforce_dim of
             None \<Rightarrow> Inr (Some ld)
           | Some d \<Rightarrow>
               (case enforce_shape d (shape (ld_data ld)) of
                  Inl e \<Rightarrow> Inl e
                | Inr None \<Rightarrow> Inr (Some ld)
                | Inr (Some new_shape) \<Rightarrow>
                    Inr (Some (ld\<lparr>ld_data := (ld_data ld)\<lparr>shape := new_shape\<rparr>,
                                  ld_img := (if ld_own ld
                                             then (ld_img ld)\<lparr>img_data := (ld_data ld)\<lparr>shape := new_shape\<rparr>\<rparr>
                                             else ld_img ld)\<rparr>)))))"

text \<open>
  Lines 379-389: the check that the loaded volumes agree in all but the leading dimension
  (it runs under \<^verbatim>\<open>__debug__\<close>, which is on unless Python is started with \<^verbatim>\<open>-O\<close>), and the
  stacking. \<^verbatim>\<open>s[0]\<close> of an entry that is \<^verbatim>\<open>None\<close> raises a TypeError.
\<close>

definition combine_loaded :: "loaded option list \<Rightarrow> pyerr + loaded option" where
  "combine_loaded srcs =
     (if list_ex (\<lambda>s. s = None) srcs then Inl TypeError
      else (case map the srcs of
              [] \<Rightarrow> Inl IndexError
            | l # ls \<Rightarrow>
                if \<not> list_all (\<lambda>s. tl (shape (ld_data s)) = tl (shape (ld_data l))) (l # ls)
                then Inl ValueError
                else (case np_vstack (map ld_data (l # ls)) of
                        Inl e \<Rightarrow> Inl e
                      | Inr imgdata \<Rightarrow>
                          Inr (Some \<lparr>ld_data = imgdata, ld_hdr = ld_hdr l,
                                     ld_img = ld_img l, ld_own = False\<rparr>))))"

text \<open>
  The object a source is after its image was reshaped in place.
\<close>

fun write_back :: "src \<Rightarrow> loaded option \<Rightarrow> src" where
  "write_back (SrcImg img) (Some ld) = SrcImg (ld_img ld)"
| "write_back source res = source"

text \<open>
  \<^verbatim>\<open>_load_anyimg\<close> (lines 345-423), with the list comprehension of line 377 as
  \<open>load_list\<close>: it stops at the first entry that raises. The result is the source after the
  call, the warnings, and the returned triple (\<open>None\<close> for Python's \<^verbatim>\<open>None\<close>) or
  the exception. The argument \<open>ensure\<close> is handed on to the recursive calls and is not
  read anywhere else.
\<close>

fun load_anyimg :: "nibabel \<Rightarrow> src \<Rightarrow> bool \<Rightarrow> nat option
      \<Rightarrow> src \<times> string list \<times> (pyerr + loaded option)"
  and load_list :: "nibabel \<Rightarrow> src list \<Rightarrow> bool \<Rightarrow> nat option
      \<Rightarrow> src list \<times> string list \<times> (pyerr + loaded option list)"
where
  "load_anyimg nib (SrcSeq (s # ss)) ensure enforce_dim =
     (case load_list nib (s # ss) ensure enforce_dim of
        (ss', w, Inl e) \<Rightarrow> (SrcSeq ss', w, Inl e)
      | (ss', w, Inr srcs) \<Rightarrow>
          (case combine_loaded srcs of
             Inl e \<Rightarrow> (SrcSeq ss', w, Inl e)
           | Inr res \<Rightarrow>
               (case enforce_loaded enforce_dim res of
                  Inl e \<Rightarrow> (SrcSeq ss', w, Inl e)
                | Inr res' \<Rightarrow> (SrcSeq ss', w, Inr res'))))"
| "load_anyimg nib source ensure enforce_dim =
     (case img2data nib source of
        (source', w, Inl e) \<Rightarrow> (source', w, Inl e)
      | (source', w, Inr res) \<Rightarrow>
          (case enforce_loaded enforce_dim res of
             Inl e \<Rightarrow> (source', w, Inl e)
           | Inr res' \<Rightarrow> (write_back source' res', w, Inr res')))"
| "load_list nib [] ensure enforce_dim = ([], [], Inr [])"
| "load_list nib (s # ss) ensure enforce_dim =
     (case load_anyimg nib s ensure enforce_dim of
        (s', w, Inl e) \<Rightarrow> (s' # ss, w, Inl e)
      | (s', w, Inr r) \<Rightarrow>
          (case load_list nib ss ensure enforce_dim of
             (ss', w', Inl e) \<Rightarrow> (s' # ss', w @ w', Inl e)
           | (ss', w', Inr rs) \<Rightarrow> (s' # ss', w @ w', Inr (r # rs))))"

section \<open>The dataset container and the flattening mapper\<close>

text \<open>
  The value of the dataset attribute \<^verbatim>\<open>imghdr\<close> (and of the argument \<^verbatim>\<open>imghdr\<close> of
  \<^verbatim>\<open>map2nifti\<close>) is a dictionary or a header object; the value of \<^verbatim>\<open>imgtype\<close> is a class
  name or an object of the library.
\<close>

datatype hdrval = HDict pydict | HObj header

datatype typeval = TName string | TObj nibobj

text \<open>
  Modelled from the spec: the spatial flattening transform (\<^verbatim>\<open>FlattenMapper\<close> of
  \<^verbatim>\<open>mvpa2.mappers.flatten\<close>, not part of this module) together with the column selection
  of the dataset container. It is built from the spatial shape and the name of the index
  attribute; \<open>selection\<close> is the column selection applied after it (\<open>None\<close> when no mask was
  applied). Forward, all dimensions but the leading one become one feature axis and
  the selected features are kept; reverse, the features go back to their voxels. The spec
  does not say what the reverse of a selection puts at the voxels that were left out; the
  model puts zero there.
\<close>

record mapper =
  flat_shape :: "nat list"
  flat_space :: "string option"
  selection :: "bool list option"

definition select :: "bool list \<Rightarrow> 'a list \<Rightarrow> 'a list" where
  "select sel xs = map fst (filter snd (zip xs sel))"

fun unselect :: "bool list \<Rightarrow> real list \<Rightarrow> real list" where
  "unselect [] xs = []"
| "unselect (True # sel) (x # xs) = x # unselect sel xs"
| "unselect (b # sel) xs = 0 # unselect sel xs"

definition rows :: "nat \<Rightarrow> nat \<Rightarrow> 'a list \<Rightarrow> 'a list list" where
  "rows n k xs = map (\<lambda>i. take k (drop (i * k) xs)) [0..<n]"

definition n_features :: "mapper \<Rightarrow> nat" where
  "n_features m =
     (case selection m of
        None \<Rightarrow> prod_list (flat_shape m)
      | Some sel \<Rightarrow> length (filter id sel))"

definition mapper_forward1 :: "mapper \<Rightarrow> ndarray \<Rightarrow> pyerr + ndarray" where
  "mapper_forward1 m arr =
     (if shape arr \<noteq> flat_shape m then Inl ValueError
      else (case selection m of
              None \<Rightarrow> Inr \<lparr>shape = [prod_list (flat_shape m)], elems = elems arr\<rparr>
            | Some sel \<Rightarrow>
                Inr \<lparr>shape = [length (filter id sel)], elems = select sel (elems arr)\<rparr>))"

definition mapper_reverse :: "mapper \<Rightarrow> ndarray \<Rightarrow> pyerr + ndarray" where
  "mapper_reverse m arr =
     (case shape arr of
        [n, k] \<Rightarrow>
          if k \<noteq> n_features m then Inl ValueError
          else (case selection m of
                  None \<Rightarrow> Inr \<lparr>shape = n # flat_shape m, elems = elems arr\<rparr>
                | Some sel \<Rightarrow>
                    Inr \<lparr>shape = n # flat_shape m,
                         elems = concat (map (unselect sel) (rows n k (elems arr)))\<rparr>)
      | other \<Rightarrow> Inl ValueError)"

definition mapper_reverse1 :: "mapper \<Rightarrow> ndarray \<Rightarrow> pyerr + ndarray" where
  "mapper_reverse1 m arr =
     (case shape arr of
        [k] \<Rightarrow>
          if k \<noteq> n_features m then Inl ValueError
          else (case selection m of
                  None \<Rightarrow> Inr \<lparr>shape = flat_shape m, elems = elems arr\<rparr>
                | Some sel \<Rightarrow> Inr \<lparr>shape = flat_shape m, elems = unselect sel (elems arr)\<rparr>)
      | other \<Rightarrow> Inl ValueError)"

text \<open>
  Modelled from the spec: the analysis table (\<^verbatim>\<open>Dataset\<close> of \<^verbatim>\<open>mvpa2.datasets.base\<close>, not
  part of this module): a matrix of samples by features, the sample attributes \<open>sa\<close> (one
  value per row), the feature attributes \<open>fa\<close> (one value per column) and the dataset
  attributes \<^verbatim>\<open>ds.a\<close>, here one optional component for each of \<^verbatim>\<open>mapper\<close>, \<^verbatim>\<open>imgaffine\<close>,
  \<^verbatim>\<open>imgtype\<close> and \<^verbatim>\<open>imghdr\<close> (\<open>None\<close> when the attribute is not in \<^verbatim>\<open>ds.a\<close>) and a dictionary
  for the attributes named after a prefix.
\<close>

record dataset =
  samples :: ndarray
  sa :: "(string \<times> pyval list) list"
  fa :: "(string \<times> pyval list) list"
  a_mapper :: "mapper option"
  a_imgaffine :: "affine option"
  a_imgtype :: "typeval option"
  a_imghdr :: "hdrval option"
  a_other :: pydict

text \<open>
  Modelled from the spec: the attribute-expansion helper (\<^verbatim>\<open>_expand_attribute\<close> of
  \<^verbatim>\<open>mvpa2.base.dataset\<close>, not part of this module): a scalar is repeated for every row,
  a sequence must have one entry per row.
\<close>

datatype attr = Scalar pyval | Sequence "pyval list"

definition expand_attribute :: "attr \<Rightarrow> nat \<Rightarrow> pyerr + pyval list" where
  "expand_attribute av n =
     (case av of
        Scalar v \<Rightarrow> Inr (replicate n v)
      | Sequence vs \<Rightarrow> if length vs = n then Inr vs else Inl ValueError)"

text \<open>
  The voxel index of feature \<open>k\<close> in a volume of shape \<open>shp\<close> (the inverse of \<open>ravel\<close>).
\<close>

fun unravel :: "nat list \<Rightarrow> nat \<Rightarrow> nat list" where
  "unravel [] k = []"
| "unravel (n # shp) k = (k div prod_list shp) # unravel shp (k mod prod_list shp)"

text \<open>
  Modelled from the spec: \<^verbatim>\<open>Dataset(imgdata, sa=sa)\<close> followed by
  \<^verbatim>\<open>get_mapped(FlattenMapper(shape, space))\<close> (lines 273-278): the samples are flattened,
  the mapper is attached, and the voxel index of every feature is recorded under the name
  \<open>space\<close> unless that is \<open>None\<close>.
\<close>

definition flatten_dataset :: "ndarray \<Rightarrow> (string \<times> pyval list) list \<Rightarrow> string option \<Rightarrow> dataset" where
  "flatten_dataset imgdata sattr space =
     (let shp = tl (shape imgdata); n = prod_list shp
      in \<lparr>samples = \<lparr>shape = [hd (shape imgdata), n], elems = elems imgdata\<rparr>,
          sa = sattr,
          fa = (case space of
                  None \<Rightarrow> []
                | Some name \<Rightarrow>
                    [(name, map (\<lambda>k. PyTuple (map (\<lambda>i. PyInt (int i)) (unravel shp k))) [0..<n])]),
          a_mapper = Some \<lparr>flat_shape = shp, flat_space = space, selection = None\<rparr>,
          a_imgaffine = None, a_imgtype = None, a_imghdr = None, a_other = []\<rparr>)"

text \<open>
  Modelled from the spec: the column selection \<^verbatim>\<open>ds[:, flatmask != 0]\<close> (line 287): the
  columns, the feature attributes and the mapper keep the features at which the mask is
  not zero.
\<close>

definition select_features :: "dataset \<Rightarrow> bool list \<Rightarrow> dataset" where
  "select_features ds sel =
     (let n = hd (shape (samples ds)); k = hd (tl (shape (samples ds)))
      in ds\<lparr>samples := \<lparr>shape = [n, length (filter id sel)],
                         elems = concat (map (select sel) (rows n k (elems (samples ds))))\<rparr>,
            fa := map (\<lambda>(name, vs). (name, select sel vs)) (fa ds),
            a_mapper := map_option (\<lambda>m. m\<lparr>selection := Some sel\<rparr>) (a_mapper ds)\<rparr>)"

section \<open>Stripping library objects from a dataset\<close>

text \<open>
  \<^verbatim>\<open>strip_nibabel\<close> (lines 426-483) changes the dataset in place: the result is the warnings
  issued and the dataset after the call. \<^verbatim>\<open>hasattr(imghdr, 'get_best_affine')\<close> holds for
  a header object whose class has the method, and for no dictionary.
\<close>

definition strip_nibabel :: "nibabel \<Rightarrow> dataset \<Rightarrow> string list \<times> dataset" where
  "strip_nibabel nib ds =
     (let ds1 = (case a_imgtype ds of
                   Some (TObj c) \<Rightarrow>
                     if is_type c then ds\<lparr>a_imgtype := Some (TName (type_name c))\<rparr> else ds
                 | other \<Rightarrow> ds)
      in (case a_imghdr ds1 of
            None \<Rightarrow> ([], ds1)
          | Some (HDict kv) \<Rightarrow> ([], ds1)
          | Some (HObj hdr) \<Rightarrow>
              (let ds2 = (case get_best_affine nib hdr of
                            Some aff \<Rightarrow> ds1\<lparr>a_imgaffine := Some aff\<rparr>
                          | None \<Rightarrow> ds1)
               in (case hdr2dict hdr of
                     (w, Inr kv) \<Rightarrow> (w, ds2\<lparr>a_imghdr := Some (HDict kv)\<rparr>)
                   | (w, Inl e) \<Rightarrow> (w, ds2\<lparr>a_imghdr := None\<rparr>)))))"

section \<open>Building a dataset\<close>

text \<open>\<^verbatim>\<open>_get_voxdim\<close> (lines 319-321) and \<^verbatim>\<open>_get_dt\<close> (lines 324-326).\<close>

definition get_voxdim :: "nibabel \<Rightarrow> header \<Rightarrow> real list" where
  "get_voxdim nib hdr = butlast (get_zooms nib hdr)"

definition get_dt :: "nibabel \<Rightarrow> header \<Rightarrow> pyerr + real" where
  "get_dt nib hdr =
     (case get_zooms nib hdr of [] \<Rightarrow> Inl IndexError | z # zs \<Rightarrow> Inr (last (z # zs)))"

text \<open>Lines 266-270: the sample attributes.\<close>

definition build_sa :: "attr option \<Rightarrow> attr option \<Rightarrow> nat \<Rightarrow> pyerr + (string \<times> pyval list) list" where
  "build_sa targets chunks n =
     (case (case targets of
              None \<Rightarrow> Inr []
            | Some t \<Rightarrow> (case expand_attribute t n of
                           Inl e \<Rightarrow> Inl e
                         | Inr vs \<Rightarrow> Inr [(''targets'', vs)])) of
        Inl e \<Rightarrow> Inl e
      | Inr sattr \<Rightarrow>
          (case chunks of
             None \<Rightarrow> Inr sattr
           | Some c \<Rightarrow> (case expand_attribute c n of
                          Inl e \<Rightarrow> Inl e
                        | Inr vs \<Rightarrow> Inr (AList.update ''chunks'' vs sattr))))"

text \<open>
  Lines 258-263 and 281-287: the masking. After line 263 the variable \<^verbatim>\<open>mask\<close> holds the
  data of the mask image when one was loaded, and the mask argument itself otherwise; a
  mask that is not \<^verbatim>\<open>None\<close> goes to \<^verbatim>\<open>forward1\<close> of the mapper, which takes a plain array
  and rejects anything else.
\<close>

definition mask_features :: "dataset \<Rightarrow> ndarray \<Rightarrow> pyerr + dataset" where
  "mask_features ds m =
     (case a_mapper ds of
        None \<Rightarrow> Inl AttributeError
      | Some mp \<Rightarrow>
          (case mapper_forward1 mp m of
             Inl e \<Rightarrow> Inl e
           | Inr flatmask \<Rightarrow> Inr (select_features ds (map (\<lambda>v. v \<noteq> 0) (elems flatmask)))))"

definition apply_mask :: "dataset \<Rightarrow> src \<Rightarrow> loaded option \<Rightarrow> pyerr + dataset" where
  "apply_mask ds mask_src maskimg =
     (case maskimg of
        Some ld \<Rightarrow> mask_features ds (ld_data ld)
      | None \<Rightarrow>
          (case mask_src of
             SrcNone \<Rightarrow> Inr ds
           | SrcArray arr \<Rightarrow> mask_features ds arr
           | other \<Rightarrow> Inl TypeError))"

text \<open>
  Lines 290-293: the loop over the additional feature attributes. Each source is loaded
  with \<^verbatim>\<open>_load_anyimg(..., ensure=True)\<close> and \<^verbatim>\<open>[0]\<close> is taken of the result, which raises
  a TypeError when the result is \<^verbatim>\<open>None\<close>. The result is the sources after the loop, the
  warnings and the dataset.
\<close>

fun add_fa_loop :: "nibabel \<Rightarrow> (string \<times> src) list \<Rightarrow> dataset
      \<Rightarrow> (string \<times> src) list \<times> string list \<times> (pyerr + dataset)" where
  "add_fa_loop nib [] ds = ([], [], Inr ds)"
| "add_fa_loop nib ((fattr, source) # rest) ds =
     (case load_anyimg nib source True None of
        (source', w, Inl e) \<Rightarrow> ((fattr, source') # rest, w, Inl e)
      | (source', w, Inr None) \<Rightarrow> ((fattr, source') # rest, w, Inl TypeError)
      | (source', w, Inr (Some ld)) \<Rightarrow>
          (case a_mapper ds of
             None \<Rightarrow> ((fattr, source') # rest, w, Inl AttributeError)
           | Some mp \<Rightarrow>
               (case mapper_forward1 mp (ld_data ld) of
                  Inl e \<Rightarrow> ((fattr, source') # rest, w, Inl e)
                | Inr flat \<Rightarrow>
                    (case add_fa_loop nib rest
                            (ds\<lparr>fa := AList.update fattr (map PyFloat (elems flat)) (fa ds)\<rparr>) of
                       (rest', w', r) \<Rightarrow> ((fattr, source') # rest', w @ w', r)))))"

text \<open>Lines 296-302: the image properties, then \<^verbatim>\<open>strip_nibabel\<close>.\<close>

definition store_props :: "nibabel \<Rightarrow> dataset \<Rightarrow> loaded \<Rightarrow> string list \<times> dataset" where
  "store_props nib ds ld =
     strip_nibabel nib
       (ds\<lparr>a_imgaffine := Some (img_affine (ld_img ld)),
            a_imgtype := Some (TName (img_class (ld_img ld))),
            a_imghdr := Some (HObj (ld_hdr ld))\<rparr>)"

text \<open>Lines 305-313: the extent of the space and the time attributes.\<close>

definition store_extents :: "nibabel \<Rightarrow> dataset \<Rightarrow> loaded \<Rightarrow> string option \<Rightarrow> string option
      \<Rightarrow> pyerr + dataset" where
  "store_extents nib ds ld sprefix tprefix =
     (let ds1 = (case sprefix of
                   None \<Rightarrow> ds
                 | Some sp \<Rightarrow>
                     ds\<lparr>a_other :=
                          AList.update (sp @ ''_eldim'')
                            (PyTuple (map PyFloat (get_voxdim nib (ld_hdr ld))))
                            (AList.update (sp @ ''_dim'')
                               (PyTuple (map (\<lambda>i. PyInt (int i)) (tl (shape (ld_data ld)))))
                               (a_other ds))\<rparr>)
      in (case tprefix of
            None \<Rightarrow> Inr ds1
          | Some tp \<Rightarrow>
              (case get_dt nib (ld_hdr ld) of
                 Inl e \<Rightarrow> Inl e
               | Inr dt \<Rightarrow>
                   (let n = hd (shape (samples ds1))
                    in Inr (ds1\<lparr>sa :=
                         AList.update (tp @ ''_coords'')
                           (map (\<lambda>i. PyFloat (real i * dt)) [0..<n])
                           (AList.update (tp @ ''_indices'')
                              (map (\<lambda>i. PyInt (int i)) [0..<n]) (sa ds1))\<rparr>)))))"

text \<open>
  \<^verbatim>\<open>fmri_dataset\<close> (lines 189-316). The result holds the three sources as they are after
  the call, the warnings, and the dataset or the exception. Unpacking the result of
  \<^verbatim>\<open>_load_anyimg\<close> (line 254) raises a TypeError when that result is \<^verbatim>\<open>None\<close>.
\<close>

record fmri_result =
  samples_after :: src
  mask_after :: src
  add_fa_after :: "(string \<times> src) list option"
  warnings :: "string list"
  outcome :: "pyerr + dataset"

definition fmri_dataset :: "nibabel \<Rightarrow> src \<Rightarrow> attr option \<Rightarrow> attr option \<Rightarrow> src
      \<Rightarrow> string option \<Rightarrow> string option \<Rightarrow> (string \<times> src) list option \<Rightarrow> fmri_result" where
  "fmri_dataset nib samples_src targets chunks mask_src sprefix tprefix add_fa =
     (case load_anyimg nib samples_src True (Some 4) of
        (s', w1, Inl e) \<Rightarrow>
          \<lparr>samples_after = s', mask_after = mask_src, add_fa_after = add_fa,
           warnings = w1, outcome = Inl e\<rparr>
      | (s', w1, Inr None) \<Rightarrow>
          \<lparr>samples_after = s', mask_after = mask_src, add_fa_after = add_fa,
           warnings = w1, outcome = Inl TypeError\<rparr>
      | (s', w1, Inr (Some ld)) \<Rightarrow>
          (case load_anyimg nib mask_src False None of
             (m', w2, Inl e) \<Rightarrow>
               \<lparr>samples_after = s', mask_after = m', add_fa_after = add_fa,
                warnings = w1 @ w2, outcome = Inl e\<rparr>
           | (m', w2, Inr maskimg) \<Rightarrow>
               (case (case build_sa targets chunks (hd (shape (ld_data ld))) of
                        Inl e \<Rightarrow> Inl e
                      | Inr sattr \<Rightarrow>
                          apply_mask
                            (flatten_dataset (ld_data ld) sattr
                               (map_option (\<lambda>sp. sp @ ''_indices'') sprefix))
                            m' maskimg) of
                  Inl e \<Rightarrow>
                    \<lparr>samples_after = s', mask_after = m', add_fa_after = add_fa,
                     warnings = w1 @ w2, outcome = Inl e\<rparr>
                | Inr ds \<Rightarrow>
                    (case (case add_fa of
                             None \<Rightarrow> (None, [], Inr ds)
                           | Some fas \<Rightarrow>
                               (case add_fa_loop nib fas ds of
                                  (fas', w3, r) \<Rightarrow> (Some fas', w3, r))) of
                       (fa', w3, Inl e) \<Rightarrow>
                         \<lparr>samples_after = s', mask_after = m', add_fa_after = fa',
                          warnings = w1 @ w2 @ w3, outcome = Inl e\<rparr>
                     | (fa', w3, Inr ds') \<Rightarrow>
                         (case store_props nib ds' ld of
                            (w4, ds'') \<Rightarrow>
                              \<lparr>samples_after = s', mask_after = m', add_fa_after = fa',
                               warnings = w1 @ w2 @ w3 @ w4,
                               outcome = store_extents nib ds'' ld sprefix tprefix\<rparr>)))))"

section \<open>Mapping a dataset back into an image\<close>

text \<open>
  The argument \<^verbatim>\<open>data\<close> of \<^verbatim>\<open>map2nifti\<close>: an array or a dataset (\<open>None\<close> of the option type
  is Python's \<^verbatim>\<open>None\<close>).
\<close>

datatype data_arg = DataArray ndarray | DataDataset dataset

text \<open>
  \<^verbatim>\<open>k in imghdr\<close> and \<^verbatim>\<open>imghdr[k] = v\<close> for a dictionary or a header object. A dictionary
  takes any value as it is, a header object what its field makes of it.
\<close>

definition hv_contains :: "hdrval \<Rightarrow> string \<Rightarrow> pyerr + bool" where
  "hv_contains hv k =
     (case hv of
        HDict kv \<Rightarrow> Inr (map_of kv k \<noteq> None)
      | HObj hdr \<Rightarrow>
          (case hdr_items hdr of
             None \<Rightarrow> Inl TypeError
           | Some its \<Rightarrow> Inr (map_of its k \<noteq> None)))"

definition hv_setitem :: "nibabel \<Rightarrow> hdrval \<Rightarrow> string \<Rightarrow> pyval \<Rightarrow> pyerr + hdrval" where
  "hv_setitem nib hv k v =
     (case hv of
        HDict kv \<Rightarrow> Inr (HDict (AList.update k v kv))
      | HObj hdr \<Rightarrow>
          (case hdr_setitem nib hdr k v of
             Inl e \<Rightarrow> Inl e
           | Inr hdr' \<Rightarrow> Inr (HObj hdr')))"

text \<open>
  Lines 136-147: the header. A value that holds the key \<^verbatim>\<open>hdrtype\<close> is decoded by
  \<^verbatim>\<open>_dict2hdr\<close>, any other value is taken as it is.
\<close>

definition resolve_imghdr :: "nibabel \<Rightarrow> dataset \<Rightarrow> hdrval option \<Rightarrow> pyerr + hdrval option" where
  "resolve_imghdr nib ds imghdr =
     (case (case imghdr of None \<Rightarrow> a_imghdr ds | Some hv \<Rightarrow> Some hv) of
        None \<Rightarrow> Inr None
      | Some hv \<Rightarrow>
          (case hv_contains hv ''hdrtype'' of
             Inl e \<Rightarrow> Inl e
           | Inr False \<Rightarrow> Inr (Some hv)
           | Inr True \<Rightarrow>
               (case dict2hdr nib (case hv of
                                     HDict kv \<Rightarrow> kv
                                   | HObj hdr \<Rightarrow> (case hdr_items hdr of None \<Rightarrow> [] | Some its \<Rightarrow> its)) of
                  Inl e \<Rightarrow> Inl e
                | Inr hdr \<Rightarrow> Inr (Some (HObj hdr)))))"

text \<open>
  Lines 149-161: the image class. \<^verbatim>\<open>getattr(nibabel, name)\<close> raises an AttributeError when
  the module has no attribute of that name, and a TypeError when \<^verbatim>\<open>name\<close> is not a string;
  the \<^verbatim>\<open>except\<close> clause of line 153 catches the TypeError only.
\<close>

definition resolve_imgtype :: "nibabel \<Rightarrow> dataset \<Rightarrow> nibobj option \<Rightarrow> pyerr + nibobj" where
  "resolve_imgtype nib ds imgtype =
     (case imgtype of
        Some c \<Rightarrow> Inr c
      | None \<Rightarrow>
          (case a_imgtype ds of
             Some (TName name) \<Rightarrow>
               (case nib_getattr nib name of
                  None \<Rightarrow> Inl AttributeError
                | Some c \<Rightarrow> Inr c)
           | Some (TObj c) \<Rightarrow> Inr c
           | None \<Rightarrow>
               (case nib_getattr nib ''Nifti1Image'' of
                  None \<Rightarrow> Inl AttributeError
                | Some c \<Rightarrow> Inr c)))"

text \<open>
  Lines 164-171: the display range, set inside \<^verbatim>\<open>try\<close> with a bare \<^verbatim>\<open>except\<close>: whatever
  raises (the membership test, \<^verbatim>\<open>max\<close> of an empty array, an assignment) ends the block and
  what was assigned before stays.
\<close>

definition set_range :: "nibabel \<Rightarrow> hdrval \<Rightarrow> ndarray \<Rightarrow> hdrval" where
  "set_range nib hv dsarray =
     (case hv_contains hv ''cal_max'' of
        Inl e \<Rightarrow> hv
      | Inr False \<Rightarrow> hv
      | Inr True \<Rightarrow>
          if elems dsarray = [] then hv
          else (case hv_setitem nib hv ''cal_max'' (PyFloat (Max (set (elems dsarray)))) of
                  Inl e \<Rightarrow> hv
                | Inr hv1 \<Rightarrow>
                    (case hv_setitem nib hv1 ''cal_min'' (PyFloat (Min (set (elems dsarray)))) of
                       Inl e \<Rightarrow> hv1
                     | Inr hv2 \<Rightarrow> hv2)))"

text \<open>
  \<^verbatim>\<open>issubclass(imgtype, nibabel.spatialimages.SpatialImage)\<close> (line 176) raises a TypeError
  when \<^verbatim>\<open>imgtype\<close> is not a class.
\<close>

fun is_spatial_class :: "nibobj \<Rightarrow> pyerr + bool" where
  "is_spatial_class (ImgClass n b) = Inr b"
| "is_spatial_class (HdrClass h) = Inr False"
| "is_spatial_class NibOther = Inl TypeError"

text \<open>
  \<^verbatim>\<open>map2nifti\<close> (lines 100-186). A header object that the caller hands over (or that the
  dataset still holds) is changed in place by line 167. Line 181 returns what the
  constructor of the image class returns for the data in storage order, no affine and the
  header.
\<close>

definition map2nifti :: "nibabel \<Rightarrow> dataset \<Rightarrow> data_arg option \<Rightarrow> hdrval option
      \<Rightarrow> nibobj option \<Rightarrow> pyerr + image" where
  "map2nifti nib ds data_in imghdr imgtype =
     (let arr = (case data_in of
                   None \<Rightarrow> samples ds
                 | Some (DataArray d) \<Rightarrow> d
                 | Some (DataDataset d) \<Rightarrow> samples d)
      in (case a_mapper ds of
            None \<Rightarrow> Inl AttributeError
          | Some mp \<Rightarrow>
              (case (if length (shape arr) > 1 then mapper_reverse mp arr
                     else mapper_reverse1 mp arr) of
                 Inl e \<Rightarrow> Inl e
               | Inr dsarray \<Rightarrow>
                   (case resolve_imghdr nib ds imghdr of
                      Inl e \<Rightarrow> Inl e
                    | Inr hv \<Rightarrow>
                        (case resolve_imgtype nib ds imgtype of
                           Inl e \<Rightarrow> Inl e
                         | Inr cls \<Rightarrow>
                             (let hv' = map_option (\<lambda>h. set_range nib h dsarray) hv
                              in (case is_spatial_class cls of
                                    Inl e \<Rightarrow> Inl e
                                  | Inr False \<Rightarrow> Inl ValueError
                                  | Inr True \<Rightarrow>
                                      (case hv' of
                                         None \<Rightarrow>
                                           new_image nib cls (get_xyzt_shaped dsarray) None
                                       | Some (HObj hdr) \<Rightarrow>
                                           new_image nib cls (get_xyzt_shaped dsarray) (Some hdr)
                                       | Some (HDict kv) \<Rightarrow> Inl ValueError))))))))"

section \<open>A small image library\<close>

text \<open>
  A concrete library on which the functions can be run. As the module \<^verbatim>\<open>nibabel\<close> does, it
  has the image classes \<^verbatim>\<open>Nifti1Image\<close> and \<^verbatim>\<open>Nifti1Pair\<close> and the header class
  \<^verbatim>\<open>Nifti1Header\<close> (here with five fields) as attributes, and no attribute
  \<^verbatim>\<open>Nifti1PairHeader\<close>, the class of the header of a \<^verbatim>\<open>Nifti1Pair\<close> image. It loads no
  file, its \<^verbatim>\<open>set_data_shape\<close> records the shape in the field \<^verbatim>\<open>dim\<close> of a header that has
  one, and a field stores a value as it is. Its image constructor keeps the data, takes the
  fields of the header it is given (those of a new \<^verbatim>\<open>Nifti1Header\<close> when it is given none)
  and resets \<^verbatim>\<open>scl_slope\<close> and \<^verbatim>\<open>scl_inter\<close> to not-a-number; called on something that is not
  an image class it raises a TypeError.
\<close>

definition nib_demo :: nibabel where
  "nib_demo =
     \<lparr>nib_getattr =
        [''Nifti1Image'' \<mapsto> ImgClass ''Nifti1Image'' True,
         ''Nifti1Pair'' \<mapsto> ImgClass ''Nifti1Pair'' True,
         ''Nifti1Header'' \<mapsto>
            HdrClass \<lparr>hdr_class = ''Nifti1Header'',
                      hdr_items = Some [(''scl_slope'', PyNaN), (''scl_inter'', PyNaN),
                                        (''cal_max'', PyFloat 0), (''cal_min'', PyFloat 0),
                                        (''descrip'', PyStr [])]\<rparr>],
      nib_load = (\<lambda>name. Inl IOError),
      set_data_shape =
        (\<lambda>hdr shp. case hdr_items hdr of
                      None \<Rightarrow> hdr
                    | Some its \<Rightarrow>
                        (case map_of its ''dim'' of
                           None \<Rightarrow> hdr
                         | Some old \<Rightarrow>
                             hdr\<lparr>hdr_items :=
                                   Some (AList.update ''dim''
                                           (PyTuple (map (\<lambda>i. PyInt (int i)) shp)) its)\<rparr>)),
      get_best_affine = (\<lambda>hdr. None),
      get_zooms = (\<lambda>hdr. [1, 1, 1, 2]),
      hdr_store = (\<lambda>c k v. Inr v),
      new_image =
        (\<lambda>c arr imghdr.
           case c of
             ImgClass n b \<Rightarrow>
               (let hdr = (case imghdr of
                             None \<Rightarrow>
                               \<lparr>hdr_class = ''Nifti1Header'',
                                hdr_items = Some [(''scl_slope'', PyNaN), (''scl_inter'', PyNaN),
                                                  (''cal_max'', PyFloat 0),
                                                  (''cal_min'', PyFloat 0),
                                                  (''descrip'', PyStr [])]\<rparr>
                           | Some h \<Rightarrow> h)
                in Inr \<lparr>img_class = n, img_data = arr,
                        img_header =
                          hdr\<lparr>hdr_items :=
                                map_option
                                  (map (\<lambda>(k, v). if k = ''scl_slope'' \<or> k = ''scl_inter''
                                                  then (k, PyNaN) else (k, v)))
                                  (hdr_items hdr)\<rparr>,
                        img_affine = []\<rparr>)
           | HdrClass h \<Rightarrow> Inl TypeError
           | NibOther \<Rightarrow> Inl TypeError)\<rparr>"

section \<open>Properties of sources\<close>

text \<open>
  \<open>all_images P source\<close>: every image object inside the source satisfies \<open>P\<close>.
\<close>

fun all_images :: "(image \<Rightarrow> bool) \<Rightarrow> src \<Rightarrow> bool" where
  "all_images P (SrcImg img) = P img"
| "all_images P (SrcSeq ss) = (\<forall>s\<in>set ss. all_images P s)"
| "all_images P other = True"

section \<open>Shape normalisation\<close>

lemma length_transpose2: "length (transpose2 r c xs) = r * c"
  by (simp add: transpose2_def)

lemma transpose2_index:
  fixes k r c :: nat
  assumes "k < r * c"
  shows "((k mod c) * r + k div c) mod r = k div c"
    and "((k mod c) * r + k div c) div r = k mod c"
    and "(k mod c) * r + k div c < c * r"
proof -
  from assms have c: "0 < c" by (cases c) simp_all
  from assms have r: "0 < r" by (cases r) simp_all
  from assms have d: "k div c < r"
    by (simp add: less_mult_imp_div_less mult.commute)
  have m: "k mod c < c" using c by simp
  show "((k mod c) * r + k div c) mod r = k div c" using d by simp
  show "((k mod c) * r + k div c) div r = k mod c" using d r by simp
  have "(k mod c) * r + k div c < (k mod c) * r + r" using d by simp
  also have "\<dots> = (Suc (k mod c)) * r" by simp
  also have "\<dots> \<le> c * r" using m by (intro mult_le_mono1) simp
  finally show "(k mod c) * r + k div c < c * r" .
qed

lemma transpose2_transpose2:
  assumes "length xs = r * c"
  shows "transpose2 c r (transpose2 r c xs) = xs"
proof (rule nth_equalityI)
  show "length (transpose2 c r (transpose2 r c xs)) = length xs"
    using assms by (simp add: length_transpose2 mult.commute)
next
  fix k assume "k < length (transpose2 c r (transpose2 r c xs))"
  then have k: "k < r * c" by (simp add: length_transpose2 mult.commute)
  then have k': "k < c * r" by (simp add: mult.commute)
  have "transpose2 c r (transpose2 r c xs) ! k
      = transpose2 r c xs ! ((k mod c) * r + k div c)"
    using k' by (simp add: transpose2_def)
  also have "\<dots> = xs ! ((k div c) * c + k mod c)"
    using transpose2_index [OF k] by (simp add: transpose2_def mult.commute)
  also have "\<dots> = xs ! k" by simp
  finally show "transpose2 c r (transpose2 r c xs) ! k = xs ! k" .
qed

lemma rollaxis_roundtrip:
  assumes "wf_array arr" and "shape arr \<noteq> []"
  shows "rollaxis_front_to_last (rollaxis_last_to_front arr) = arr"
proof -
  obtain shp n where s: "shape arr = shp @ [n]"
    using assms(2) by (cases "shape arr" rule: rev_cases) auto
  have len: "length (elems arr) = prod_list shp * n"
    using assms(1) s by (simp add: wf_array_def)
  have "elems (rollaxis_front_to_last (rollaxis_last_to_front arr))
      = transpose2 n (prod_list shp) (transpose2 (prod_list shp) n (elems arr))"
    by (simp add: rollaxis_front_to_last_def rollaxis_last_to_front_def s)
  also have "\<dots> = elems arr" by (rule transpose2_transpose2 [OF len])
  finally have e: "elems (rollaxis_front_to_last (rollaxis_last_to_front arr)) = elems arr" .
  have sh: "shape (rollaxis_front_to_last (rollaxis_last_to_front arr)) = shape arr"
    by (simp add: rollaxis_front_to_last_def rollaxis_last_to_front_def s)
  show ?thesis using e sh by (simp add: ndarray.equality rollaxis_front_to_last_def)
qed

lemma length_shape_rollaxis_last_to_front:
  "shape arr \<noteq> [] \<Longrightarrow> length (shape (rollaxis_last_to_front arr)) = length (shape arr)"
  by (simp add: rollaxis_last_to_front_def)

text \<open>
  C4. Shape normalisation followed by its inverse gives the array back:
  \<^verbatim>\<open>_get_xyzt_shaped(_get_txyz_shaped(a))\<close> is \<open>a\<close> for every array object \<open>a\<close>, of three,
  four or any other number of dimensions.
\<close>

theorem get_xyzt_get_txyz:
  assumes "wf_array arr"
  shows "get_xyzt_shaped (get_txyz_shaped arr) = arr"
proof (cases "length (shape arr) = 4")
  case True
  then have ne: "shape arr \<noteq> []" by auto
  show ?thesis
    using True ne rollaxis_roundtrip [OF assms ne]
    by (simp add: get_xyzt_shaped_def get_txyz_shaped_def
        length_shape_rollaxis_last_to_front)
next
  case False
  then show ?thesis by (simp add: get_xyzt_shaped_def get_txyz_shaped_def)
qed

theorem get_xyzt_get_txyz_witness:
  "wf_array \<lparr>shape = [1, 2, 1, 2], elems = [1, 2, 3, 4]\<rparr> \<and>
   get_txyz_shaped \<lparr>shape = [1, 2, 1, 2], elems = [1, 2, 3, 4]\<rparr>
     = \<lparr>shape = [2, 1, 2, 1], elems = [1, 3, 2, 4]\<rparr> \<and>
   get_xyzt_shaped (get_txyz_shaped \<lparr>shape = [1, 2, 1, 2], elems = [1, 2, 3, 4]\<rparr>)
     = \<lparr>shape = [1, 2, 1, 2], elems = [1, 2, 3, 4]\<rparr>"
proof -
  have w: "wf_array \<lparr>shape = [1, 2, 1, 2], elems = [1, 2, 3, 4]\<rparr>"
    by (simp add: wf_array_def)
  have f: "get_txyz_shaped \<lparr>shape = [1, 2, 1, 2], elems = [1, 2, 3, 4]\<rparr>
     = \<lparr>shape = [2, 1, 2, 1], elems = [1, 3, 2, 4]\<rparr>"
    by (simp add: get_txyz_shaped_def rollaxis_last_to_front_def transpose2_def upt_rec)
  show ?thesis using w f get_xyzt_get_txyz [OF w] by simp
qed

section \<open>Header codec: snapshot and reconstruction\<close>

text \<open>
  C6. For a header with the mapping interface, encoding gives a snapshot whose entry
  \<^verbatim>\<open>hdrtype\<close> is the class name. When \<^verbatim>\<open>scl_slope\<close> and \<^verbatim>\<open>scl_inter\<close> both print as
  \<^verbatim>\<open>nan\<close>, one warning is issued, \<^verbatim>\<open>scl_slope\<close> becomes 1.0 and \<^verbatim>\<open>scl_inter\<close> becomes 0.0, and
  every other field is the header's; otherwise no warning is issued and every field is the
  header's.
\<close>

theorem hdr2dict_scale_repair:
  assumes "hdr_items hdr = Some kv"
  shows "\<exists>kv'. snd (hdr2dict hdr) = Inr kv' \<and>
           map_of kv' ''hdrtype'' = Some (PyStr (hdr_class hdr)) \<and>
           (if str_is_nan (dict_get kv ''scl_slope'') \<and> str_is_nan (dict_get kv ''scl_inter'')
            then fst (hdr2dict hdr) = [warn_scl] \<and>
                 map_of kv' ''scl_slope'' = Some (PyFloat 1) \<and>
                 map_of kv' ''scl_inter'' = Some (PyFloat 0) \<and>
                 (\<forall>k. k \<noteq> ''scl_slope'' \<and> k \<noteq> ''scl_inter'' \<and> k \<noteq> ''hdrtype''
                      \<longrightarrow> map_of kv' k = map_of kv k)
            else fst (hdr2dict hdr) = [] \<and>
                 (\<forall>k. k \<noteq> ''hdrtype'' \<longrightarrow> map_of kv' k = map_of kv k))"
  using assms by (simp add: hdr2dict_def scl_nan_def Let_def update_conv')

theorem hdr2dict_scale_repair_witness:
  "hdr2dict \<lparr>hdr_class = ''Nifti1Header'',
             hdr_items = Some [(''scl_slope'', PyNaN), (''descrip'', PyStr ''x''),
                               (''scl_inter'', PyNaN)]\<rparr>
     = ([warn_scl], Inr [(''scl_slope'', PyFloat 1), (''descrip'', PyStr ''x''),
                         (''scl_inter'', PyFloat 0), (''hdrtype'', PyStr ''Nifti1Header'')]) \<and>
   (\<exists>kv'. snd (hdr2dict \<lparr>hdr_class = ''Nifti1Header'',
             hdr_items = Some [(''scl_slope'', PyNaN), (''descrip'', PyStr ''x''),
                               (''scl_inter'', PyNaN)]\<rparr>) = Inr kv' \<and>
          map_of kv' ''scl_slope'' = Some (PyFloat 1) \<and>
          map_of kv' ''scl_inter'' = Some (PyFloat 0) \<and>
          map_of kv' ''descrip'' = Some (PyStr ''x''))"
  using hdr2dict_scale_repair [of "\<lparr>hdr_class = ''Nifti1Header'',
             hdr_items = Some [(''scl_slope'', PyNaN), (''descrip'', PyStr ''x''),
                               (''scl_inter'', PyNaN)]\<rparr>"
            "[(''scl_slope'', PyNaN), (''descrip'', PyStr ''x''), (''scl_inter'', PyNaN)]"]
  by (simp add: hdr2dict_def scl_nan_def dict_get_def)

lemma hdr_setitem_ok:
  assumes "hdr_items hdr = Some its" and "map_of its k \<noteq> None"
    and "hdr_store nib (hdr_class hdr) k v = Inr v'"
  shows "hdr_setitem nib hdr k v = Inr (hdr\<lparr>hdr_items := Some (AList.update k v' its)\<rparr>)"
  using assms by (auto simp: hdr_setitem_def)

lemma dict2hdr_loop_ok:
  assumes "hdr_items h0 = Some its0" and "hdr_class h0 = c"
    and "\<forall>k\<in>set ks. k \<noteq> ''hdrtype'' \<longrightarrow>
           map_of its0 k \<noteq> None \<and>
           (\<exists>v. map_of kv k = Some v \<and> hdr_store nib c k v = Inr (held k))"
  shows "\<exists>its. dict2hdr_loop nib kv ks h0 = Inr (h0\<lparr>hdr_items := Some its\<rparr>) \<and>
           (\<forall>k. map_of its k =
              (if k \<in> set ks \<and> k \<noteq> ''hdrtype'' then Some (held k) else map_of its0 k))"
  using assms
proof (induction ks arbitrary: h0 its0)
  case Nil
  then show ?case by (intro exI [of _ its0]) simp
next
  case (Cons k ks)
  have rest: "\<forall>k'\<in>set ks. k' \<noteq> ''hdrtype'' \<longrightarrow>
           map_of its0 k' \<noteq> None \<and>
           (\<exists>v. map_of kv k' = Some v \<and> hdr_store nib c k' v = Inr (held k'))"
    using Cons.prems(3) by simp
  show ?case
  proof (cases "k = ''hdrtype''")
    case True
    from Cons.IH [OF Cons.prems(1) Cons.prems(2) rest] obtain its where
      its: "dict2hdr_loop nib kv ks h0 = Inr (h0\<lparr>hdr_items := Some its\<rparr>) \<and>
        (\<forall>k. map_of its k =
           (if k \<in> set ks \<and> k \<noteq> ''hdrtype'' then Some (held k) else map_of its0 k))" ..
    note i1 = its [THEN conjunct1] and i2 = its [THEN conjunct2]
    have a: "dict2hdr_loop nib kv (k # ks) h0 = Inr (h0\<lparr>hdr_items := Some its\<rparr>)"
      using True i1 by simp
    have b: "\<forall>k'. map_of its k' =
        (if k' \<in> set (k # ks) \<and> k' \<noteq> ''hdrtype'' then Some (held k') else map_of its0 k')"
      using i2 True by simp
    show ?thesis using a b by (intro exI [of _ its] conjI)
  next
    case False
    from Cons.prems(3) False have
      kk: "map_of its0 k \<noteq> None \<and>
           (\<exists>v. map_of kv k = Some v \<and> hdr_store nib c k v = Inr (held k))"
      by simp
    note k0 = kk [THEN conjunct1]
    from kk [THEN conjunct2] obtain v where
      vv: "map_of kv k = Some v \<and> hdr_store nib c k v = Inr (held k)" ..
    note v = vv [THEN conjunct1]
    have st: "hdr_store nib (hdr_class h0) k v = Inr (held k)"
      using vv [THEN conjunct2] Cons.prems(2) by simp
    let ?h1 = "h0\<lparr>hdr_items := Some (AList.update k (held k) its0)\<rparr>"
    have set1: "hdr_setitem nib h0 k v = Inr ?h1"
      by (rule hdr_setitem_ok [OF Cons.prems(1) k0 st])
    have i1: "hdr_items ?h1 = Some (AList.update k (held k) its0)" by simp
    have c1: "hdr_class ?h1 = c" using Cons.prems(2) by simp
    have p1: "\<forall>k'\<in>set ks. k' \<noteq> ''hdrtype'' \<longrightarrow>
                map_of (AList.update k (held k) its0) k' \<noteq> None \<and>
                (\<exists>v. map_of kv k' = Some v \<and> hdr_store nib c k' v = Inr (held k'))"
      using rest by (simp add: update_conv')
    from Cons.IH [OF i1 c1 p1] obtain its where
      its: "dict2hdr_loop nib kv ks ?h1 = Inr (?h1\<lparr>hdr_items := Some its\<rparr>) \<and>
        (\<forall>k'. map_of its k' =
           (if k' \<in> set ks \<and> k' \<noteq> ''hdrtype'' then Some (held k')
            else map_of (AList.update k (held k) its0) k'))" ..
    note j1 = its [THEN conjunct1] and j2 = its [THEN conjunct2]
    have a: "dict2hdr_loop nib kv (k # ks) h0 = Inr (h0\<lparr>hdr_items := Some its\<rparr>)"
      using False v set1 j1 by simp
    have b: "\<forall>k'. map_of its k' =
        (if k' \<in> set (k # ks) \<and> k' \<noteq> ''hdrtype'' then Some (held k') else map_of its0 k')"
      using j2 False by (simp add: update_conv')
    show ?thesis using a b by (intro exI [of _ its] conjI)
  qed
qed

lemma scl_nan_keys:
  assumes "scl_nan kv"
  shows "''scl_slope'' \<in> fst ` set kv" and "''scl_inter'' \<in> fst ` set kv"
proof -
  have n0: "\<And>k. str_is_nan (dict_get kv k) \<Longrightarrow> map_of kv k \<noteq> None"
    by (simp add: dict_get_def split: option.splits)
  from assms have a: "str_is_nan (dict_get kv ''scl_slope'')"
    and b: "str_is_nan (dict_get kv ''scl_inter'')"
    by (simp_all add: scl_nan_def)
  show "''scl_slope'' \<in> fst ` set kv" using n0 [OF a] by (simp add: map_of_eq_None_iff)
  show "''scl_inter'' \<in> fst ` set kv" using n0 [OF b] by (simp add: map_of_eq_None_iff)
qed

lemma hdr2dict_snapshot:
  assumes "hdr_items hdr = Some kv"
  shows "\<exists>snap. hdr2dict hdr = (if scl_nan kv then [warn_scl] else [], Inr snap) \<and>
           map_of snap ''hdrtype'' = Some (PyStr (hdr_class hdr)) \<and>
           fst ` set snap = insert ''hdrtype'' (fst ` set kv) \<and>
           (\<forall>k. k \<noteq> ''hdrtype'' \<longrightarrow> map_of snap k =
                (if scl_nan kv \<and> k = ''scl_slope'' then Some (PyFloat 1)
                 else if scl_nan kv \<and> k = ''scl_inter'' then Some (PyFloat 0)
                 else map_of kv k))"
proof (cases "scl_nan kv")
  case True
  let ?snap = "AList.update ''hdrtype'' (PyStr (hdr_class hdr))
             (AList.update ''scl_inter'' (PyFloat 0) (AList.update ''scl_slope'' (PyFloat 1) kv))"
  have 1: "hdr2dict hdr = (if scl_nan kv then [warn_scl] else [], Inr ?snap)"
    using assms True by (simp add: hdr2dict_def)
  have 2: "map_of ?snap ''hdrtype'' = Some (PyStr (hdr_class hdr))"
    by (simp add: update_conv')
  have 3: "fst ` set ?snap = insert ''hdrtype'' (fst ` set kv)"
    using scl_nan_keys [OF True] by (simp add: dom_update insert_absorb)
  have 4: "\<forall>k. k \<noteq> ''hdrtype'' \<longrightarrow> map_of ?snap k =
                (if scl_nan kv \<and> k = ''scl_slope'' then Some (PyFloat 1)
                 else if scl_nan kv \<and> k = ''scl_inter'' then Some (PyFloat 0)
                 else map_of kv k)"
    using True by (simp add: update_conv')
  show ?thesis using 1 2 3 4 by (intro exI [of _ ?snap] conjI)
next
  case False
  let ?snap = "AList.update ''hdrtype'' (PyStr (hdr_class hdr)) kv"
  have 1: "hdr2dict hdr = (if scl_nan kv then [warn_scl] else [], Inr ?snap)"
    using assms False by (simp add: hdr2dict_def)
  have 2: "map_of ?snap ''hdrtype'' = Some (PyStr (hdr_class hdr))"
    by (simp add: update_conv')
  have 3: "fst ` set ?snap = insert ''hdrtype'' (fst ` set kv)"
    by (simp add: dom_update)
  have 4: "\<forall>k. k \<noteq> ''hdrtype'' \<longrightarrow> map_of ?snap k =
                (if scl_nan kv \<and> k = ''scl_slope'' then Some (PyFloat 1)
                 else if scl_nan kv \<and> k = ''scl_inter'' then Some (PyFloat 0)
                 else map_of kv k)"
    using False by (simp add: update_conv')
  show ?thesis using 1 2 3 4 by (intro exI [of _ ?snap] conjI)
qed

lemma dict2hdr_snapshot:
  assumes "map_of snap ''hdrtype'' = Some (PyStr cls)"
    and "nib_getattr nib cls = Some (HdrClass h0)"
    and "hdr_items h0 = Some kv0"
    and "\<forall>k\<in>fst ` set snap. k \<noteq> ''hdrtype'' \<longrightarrow>
           k \<in> fst ` set kv0 \<and>
           hdr_store nib (hdr_class h0) k (dict_get snap k) = Inr (held k)"
  shows "\<exists>its. dict2hdr nib snap = Inr (h0\<lparr>hdr_items := Some its\<rparr>) \<and>
           (\<forall>k. map_of its k =
              (if k \<in> fst ` set snap \<and> k \<noteq> ''hdrtype'' then Some (held k) else map_of kv0 k))"
proof -
  have pre: "\<forall>k\<in>set (map fst snap). k \<noteq> ''hdrtype'' \<longrightarrow>
               map_of kv0 k \<noteq> None \<and>
               (\<exists>v. map_of snap k = Some v \<and> hdr_store nib (hdr_class h0) k v = Inr (held k))"
  proof (intro ballI impI)
    fix k assume k: "k \<in> set (map fst snap)" and nh: "k \<noteq> ''hdrtype''"
    from k have k': "k \<in> fst ` set snap" by simp
    from assms(4) k' nh have
      kk: "k \<in> fst ` set kv0 \<and>
           hdr_store nib (hdr_class h0) k (dict_get snap k) = Inr (held k)"
      by blast
    have a: "map_of kv0 k \<noteq> None" using kk [THEN conjunct1] by (simp add: map_of_eq_None_iff)
    have "map_of snap k \<noteq> None" using k' by (simp add: map_of_eq_None_iff)
    then obtain v where v: "map_of snap k = Some v" by auto
    then have "dict_get snap k = v" by (simp add: dict_get_def)
    then have "hdr_store nib (hdr_class h0) k v = Inr (held k)"
      using kk [THEN conjunct2] by simp
    then have b: "\<exists>v. map_of snap k = Some v \<and> hdr_store nib (hdr_class h0) k v = Inr (held k)"
      using v by simp
    show "map_of kv0 k \<noteq> None \<and>
          (\<exists>v. map_of snap k = Some v \<and> hdr_store nib (hdr_class h0) k v = Inr (held k))"
      using a b by (rule conjI)
  qed
  from dict2hdr_loop_ok [OF assms(3) refl pre] obtain its where
    its: "dict2hdr_loop nib snap (map fst snap) h0 = Inr (h0\<lparr>hdr_items := Some its\<rparr>) \<and>
      (\<forall>k. map_of its k =
         (if k \<in> set (map fst snap) \<and> k \<noteq> ''hdrtype'' then Some (held k) else map_of kv0 k))" ..
  note i1 = its [THEN conjunct1] and i2 = its [THEN conjunct2]
  have d: "dict2hdr nib snap = Inr (h0\<lparr>hdr_items := Some its\<rparr>)"
    using assms(1,2) i1 by (simp add: dict2hdr_def)
  have v: "\<forall>k. map_of its k =
              (if k \<in> fst ` set snap \<and> k \<noteq> ''hdrtype'' then Some (held k) else map_of kv0 k)"
    using i2 unfolding set_map .
  show ?thesis using d v by (intro exI [of _ its] conjI)
qed

lemma dict2hdr_unresolved:
  assumes "map_of snap ''hdrtype'' = Some (PyStr cls)" and "nib_getattr nib cls = None"
  shows "dict2hdr nib snap = Inl AttributeError"
  using assms by (simp add: dict2hdr_def)

lemma snapshot_stores:
  assumes "fst ` set snap = insert ''hdrtype'' (fst ` set kv)"
    and "\<forall>k. k \<noteq> ''hdrtype'' \<longrightarrow> map_of snap k =
                (if scl_nan kv \<and> k = ''scl_slope'' then Some (PyFloat 1)
                 else if scl_nan kv \<and> k = ''scl_inter'' then Some (PyFloat 0)
                 else map_of kv k)"
    and "\<forall>k\<in>fst ` set kv. k \<noteq> ''hdrtype'' \<longrightarrow>
           k \<in> fst ` set kv0 \<and>
           hdr_store nib c k
             (if scl_nan kv \<and> k = ''scl_slope'' then PyFloat 1
              else if scl_nan kv \<and> k = ''scl_inter'' then PyFloat 0
              else dict_get kv k) = Inr (held k)"
  shows "\<forall>k\<in>fst ` set snap. k \<noteq> ''hdrtype'' \<longrightarrow>
           k \<in> fst ` set kv0 \<and> hdr_store nib c k (dict_get snap k) = Inr (held k)"
proof (intro ballI impI)
  fix k assume k: "k \<in> fst ` set snap" and nh: "k \<noteq> ''hdrtype''"
  have kk: "k \<in> fst ` set kv" using k nh unfolding assms(1) by simp
  have m: "map_of snap k =
                (if scl_nan kv \<and> k = ''scl_slope'' then Some (PyFloat 1)
                 else if scl_nan kv \<and> k = ''scl_inter'' then Some (PyFloat 0)
                 else map_of kv k)"
    using assms(2) nh by blast
  have g: "dict_get snap k =
             (if scl_nan kv \<and> k = ''scl_slope'' then PyFloat 1
              else if scl_nan kv \<and> k = ''scl_inter'' then PyFloat 0
              else dict_get kv k)"
    unfolding dict_get_def m by simp
  from assms(3) kk nh have
    "k \<in> fst ` set kv0 \<and>
           hdr_store nib c k
             (if scl_nan kv \<and> k = ''scl_slope'' then PyFloat 1
              else if scl_nan kv \<and> k = ''scl_inter'' then PyFloat 0
              else dict_get kv k) = Inr (held k)"
    by blast
  then show "k \<in> fst ` set kv0 \<and> hdr_store nib c k (dict_get snap k) = Inr (held k)"
    unfolding g .
qed

text \<open>
  C7 (amended). The snapshot of a header with the mapping interface is decoded against the
  image library. When the library has no attribute of the header's class name, decoding
  raises an AttributeError and gives no header. When the library resolves the name to a
  header class whose new instances have all the fields of the header, and every field
  accepts the value assigned to it (the header's own value, or 1.0 and 0.0 for
  \<^verbatim>\<open>scl_slope\<close> and \<^verbatim>\<open>scl_inter\<close> when both printed as \<^verbatim>\<open>nan\<close>) and then holds \<open>held k\<close>,
  decoding gives a new instance \<open>h0\<close> of that class in which every field \<open>k\<close> of the header
  holds \<open>held k\<close>: the value of the original, or 1.0 and 0.0, wherever the field stores what
  it is assigned unchanged. The entry \<^verbatim>\<open>hdrtype\<close> is not assigned: that name is in the
  result what it is in a new instance.
\<close>

theorem dict2hdr_hdr2dict:
  assumes "hdr_items hdr = Some kv"
  shows "\<exists>snap.
           snd (hdr2dict hdr) = Inr snap \<and>
           (nib_getattr nib (hdr_class hdr) = None \<longrightarrow>
              dict2hdr nib snap = Inl AttributeError) \<and>
           (nib_getattr nib (hdr_class hdr) = Some (HdrClass h0) \<and>
            hdr_items h0 = Some kv0 \<and>
            (\<forall>k\<in>fst ` set kv. k \<noteq> ''hdrtype'' \<longrightarrow>
               k \<in> fst ` set kv0 \<and>
               hdr_store nib (hdr_class h0) k
                 (if scl_nan kv \<and> k = ''scl_slope'' then PyFloat 1
                  else if scl_nan kv \<and> k = ''scl_inter'' then PyFloat 0
                  else dict_get kv k) = Inr (held k)) \<longrightarrow>
              (\<exists>its'.
                 dict2hdr nib snap = Inr (h0\<lparr>hdr_items := Some its'\<rparr>) \<and>
                 (\<forall>k\<in>fst ` set kv. k \<noteq> ''hdrtype'' \<longrightarrow> map_of its' k = Some (held k)) \<and>
                 map_of its' ''hdrtype'' = map_of kv0 ''hdrtype''))"
proof -
  from hdr2dict_snapshot [OF assms(1)] obtain snap where
    s: "hdr2dict hdr = (if scl_nan kv then [warn_scl] else [], Inr snap) \<and>
           map_of snap ''hdrtype'' = Some (PyStr (hdr_class hdr)) \<and>
           fst ` set snap = insert ''hdrtype'' (fst ` set kv) \<and>
           (\<forall>k. k \<noteq> ''hdrtype'' \<longrightarrow> map_of snap k =
                (if scl_nan kv \<and> k = ''scl_slope'' then Some (PyFloat 1)
                 else if scl_nan kv \<and> k = ''scl_inter'' then Some (PyFloat 0)
                 else map_of kv k))" ..
  note s1 = s [THEN conjunct1]
    and s2 = s [THEN conjunct2, THEN conjunct1]
    and s3 = s [THEN conjunct2, THEN conjunct2, THEN conjunct1]
    and s4 = s [THEN conjunct2, THEN conjunct2, THEN conjunct2]
  have sn: "snd (hdr2dict hdr) = Inr snap" using s1 by simp
  have fail: "nib_getattr nib (hdr_class hdr) = None \<longrightarrow>
      dict2hdr nib snap = Inl AttributeError"
    using dict2hdr_unresolved [OF s2] by blast
  have ok: "nib_getattr nib (hdr_class hdr) = Some (HdrClass h0) \<and>
            hdr_items h0 = Some kv0 \<and>
            (\<forall>k\<in>fst ` set kv. k \<noteq> ''hdrtype'' \<longrightarrow>
               k \<in> fst ` set kv0 \<and>
               hdr_store nib (hdr_class h0) k
                 (if scl_nan kv \<and> k = ''scl_slope'' then PyFloat 1
                  else if scl_nan kv \<and> k = ''scl_inter'' then PyFloat 0
                  else dict_get kv k) = Inr (held k)) \<longrightarrow>
              (\<exists>its'.
                 dict2hdr nib snap = Inr (h0\<lparr>hdr_items := Some its'\<rparr>) \<and>
                 (\<forall>k\<in>fst ` set kv. k \<noteq> ''hdrtype'' \<longrightarrow> map_of its' k = Some (held k)) \<and>
                 map_of its' ''hdrtype'' = map_of kv0 ''hdrtype'')"
  proof (intro impI)
    assume h: "nib_getattr nib (hdr_class hdr) = Some (HdrClass h0) \<and>
            hdr_items h0 = Some kv0 \<and>
            (\<forall>k\<in>fst ` set kv. k \<noteq> ''hdrtype'' \<longrightarrow>
               k \<in> fst ` set kv0 \<and>
               hdr_store nib (hdr_class h0) k
                 (if scl_nan kv \<and> k = ''scl_slope'' then PyFloat 1
                  else if scl_nan kv \<and> k = ''scl_inter'' then PyFloat 0
                  else dict_get kv k) = Inr (held k))"
    note h1 = h [THEN conjunct1] and h2 = h [THEN conjunct2, THEN conjunct1]
      and h3 = h [THEN conjunct2, THEN conjunct2]
    note keys = snapshot_stores [OF s3 s4 h3]
    from dict2hdr_snapshot [OF s2 h1 h2 keys] obtain its where
      dv: "dict2hdr nib snap = Inr (h0\<lparr>hdr_items := Some its\<rparr>) \<and>
       (\<forall>k. map_of its k =
              (if k \<in> fst ` set snap \<and> k \<noteq> ''hdrtype'' then Some (held k) else map_of kv0 k))" ..
    note d = dv [THEN conjunct1] and v = dv [THEN conjunct2]
    have vals: "\<forall>k\<in>fst ` set kv. k \<noteq> ''hdrtype'' \<longrightarrow> map_of its k = Some (held k)"
    proof (intro ballI impI)
      fix k assume k: "k \<in> fst ` set kv" and nh: "k \<noteq> ''hdrtype''"
      have "k \<in> fst ` set snap" using k s3 by simp
      then show "map_of its k = Some (held k)" using v nh by simp
    qed
    have ht: "map_of its ''hdrtype'' = map_of kv0 ''hdrtype''" using v by simp
    show "\<exists>its'.
                 dict2hdr nib snap = Inr (h0\<lparr>hdr_items := Some its'\<rparr>) \<and>
                 (\<forall>k\<in>fst ` set kv. k \<noteq> ''hdrtype'' \<longrightarrow> map_of its' k = Some (held k)) \<and>
                 map_of its' ''hdrtype'' = map_of kv0 ''hdrtype''"
      using d vals ht by (intro exI [of _ its] conjI)
  qed
  show ?thesis using sn fail ok by (intro exI [of _ snap] conjI)
qed

theorem dict2hdr_hdr2dict_witness:
  "dict2hdr nib_demo
     (projr (snd (hdr2dict \<lparr>hdr_class = ''Nifti1Header'',
        hdr_items = Some [(''scl_slope'', PyNaN), (''descrip'', PyStr ''x''),
                          (''scl_inter'', PyNaN)]\<rparr>)))
   = Inr \<lparr>hdr_class = ''Nifti1Header'',
          hdr_items = Some [(''scl_slope'', PyFloat 1), (''scl_inter'', PyFloat 0),
                            (''cal_max'', PyFloat 0), (''cal_min'', PyFloat 0),
                            (''descrip'', PyStr ''x'')]\<rparr>"
  using dict2hdr_hdr2dict [of "\<lparr>hdr_class = ''Nifti1Header'',
        hdr_items = Some [(''scl_slope'', PyNaN), (''descrip'', PyStr ''x''),
                          (''scl_inter'', PyNaN)]\<rparr>"
      "[(''scl_slope'', PyNaN), (''descrip'', PyStr ''x''), (''scl_inter'', PyNaN)]"
      nib_demo
      "\<lparr>hdr_class = ''Nifti1Header'',
                      hdr_items = Some [(''scl_slope'', PyNaN), (''scl_inter'', PyNaN),
                                        (''cal_max'', PyFloat 0), (''cal_min'', PyFloat 0),
                                        (''descrip'', PyStr [])]\<rparr>"
      "[(''scl_slope'', PyNaN), (''scl_inter'', PyNaN),
                                        (''cal_max'', PyFloat 0), (''cal_min'', PyFloat 0),
                                        (''descrip'', PyStr [])]"
      "\<lambda>k. if k = ''scl_slope'' then PyFloat 1
           else if k = ''scl_inter'' then PyFloat 0 else PyStr ''x''"]
  by (simp add: nib_demo_def hdr2dict_def scl_nan_def dict_get_def dict2hdr_def hdr_setitem_def)

text \<open>
  C7 as stated fails: the header of a \<^verbatim>\<open>Nifti1Pair\<close> image has the mapping interface and is
  of class \<^verbatim>\<open>Nifti1PairHeader\<close>, which is not an attribute of the library. Its snapshot is
  taken without a warning, and decoding the snapshot raises an AttributeError instead of
  giving a header.
\<close>

theorem dict2hdr_hdr2dict_counterexample:
  "hdr2dict \<lparr>hdr_class = ''Nifti1PairHeader'', hdr_items = Some [(''descrip'', PyStr ''x'')]\<rparr>
     = ([], Inr [(''descrip'', PyStr ''x''), (''hdrtype'', PyStr ''Nifti1PairHeader'')]) \<and>
   dict2hdr nib_demo [(''descrip'', PyStr ''x''), (''hdrtype'', PyStr ''Nifti1PairHeader'')]
     = Inl AttributeError"
  by (simp add: hdr2dict_def scl_nan_def dict_get_def dict2hdr_def nib_demo_def)

section \<open>Image accessor: what is loaded and what is changed\<close>

lemma img2data_image_plain:
  assumes "\<not> squeezable img"
  shows "img2data_image nib img =
     (img, [], Inr \<lparr>ld_data = get_txyz_shaped (img_data img), ld_hdr = img_header img,
                     ld_img = img, ld_own = (length (shape (img_data img)) \<noteq> 4)\<rparr>)"
  using assms by (simp add: img2data_image_def Let_def)

lemma enforce_loaded_img:
  assumes "enforce_loaded d (Some ld) = Inr (Some ld')" and "d = None \<or> \<not> ld_own ld"
  shows "ld_img ld' = ld_img ld"
  using assms
  by (auto simp: enforce_loaded_def split: option.splits sum.splits)

lemma load_anyimg_image_unchanged:
  assumes "\<not> squeezable img" and "d = None \<or> length (shape (img_data img)) = 4"
  shows "fst (load_anyimg nib (SrcImg img) ensure d) = SrcImg img"
proof -
  let ?ld = "\<lparr>ld_data = get_txyz_shaped (img_data img), ld_hdr = img_header img,
                     ld_img = img, ld_own = (length (shape (img_data img)) \<noteq> 4)\<rparr>"
  have own: "d = None \<or> \<not> ld_own ?ld" using assms(2) by simp
  show ?thesis
  proof (cases "enforce_loaded d (Some ?ld)")
    case (Inl e)
    then show ?thesis using img2data_image_plain [OF assms(1)] by (simp add: img2data_def)
  next
    case (Inr r)
    show ?thesis
    proof (cases r)
      case None
      then show ?thesis using Inr img2data_image_plain [OF assms(1)] by (simp add: img2data_def)
    next
      case (Some ld')
      have "ld_img ld' = img"
        using enforce_loaded_img [OF Inr [unfolded Some] own] by simp
      then show ?thesis
        using Inr Some img2data_image_plain [OF assms(1)] by (simp add: img2data_def)
    qed
  qed
qed

lemma load_anyimg_single:
  assumes "\<forall>s ss. source \<noteq> SrcSeq (s # ss)"
  shows "load_anyimg nib source ensure enforce_dim =
     (case img2data nib source of
        (source', w, Inl e) \<Rightarrow> (source', w, Inl e)
      | (source', w, Inr res) \<Rightarrow>
          (case enforce_loaded enforce_dim res of
             Inl e \<Rightarrow> (source', w, Inl e)
           | Inr res' \<Rightarrow> (write_back source' res', w, Inr res')))"
proof (cases source)
  case (SrcSeq xs)
  with assms have "xs = []" by (cases xs) simp_all
  with SrcSeq show ?thesis by simp
qed simp_all

lemma fst_img2data_other:
  assumes "\<forall>img. source \<noteq> SrcImg img"
  shows "fst (img2data nib source) = source"
  using assms by (cases source) (simp_all add: img2data_def split: sum.splits prod.splits)

lemma write_back_other:
  assumes "\<forall>img. source \<noteq> SrcImg img"
  shows "write_back source res = source"
  using assms by (cases source; cases res) simp_all

lemma load_anyimg_other_unchanged:
  assumes "\<forall>img. source \<noteq> SrcImg img" and "\<forall>s ss. source \<noteq> SrcSeq (s # ss)"
  shows "fst (load_anyimg nib source ensure d) = source"
proof -
  obtain s' w r where i: "img2data nib source = (s', w, r)"
    by (cases "img2data nib source") auto
  have s': "s' = source" using fst_img2data_other [OF assms(1), of nib] i by simp
  show ?thesis
    unfolding load_anyimg_single [OF assms(2)] i s'
    by (simp add: write_back_other [OF assms(1)] split: sum.splits)
qed

lemma load_anyimg_unchanged:
  "all_images (\<lambda>img. \<not> squeezable img \<and> (d = None \<or> length (shape (img_data img)) = 4)) source
     \<Longrightarrow> fst (load_anyimg nib source ensure d) = source"
  "(\<forall>s\<in>set sources.
       all_images (\<lambda>img. \<not> squeezable img \<and> (d = None \<or> length (shape (img_data img)) = 4)) s)
     \<Longrightarrow> fst (load_list nib sources ensure d) = sources"
proof (induction nib source ensure d and nib sources ensure d rule: load_anyimg_load_list.induct)
  case (1 nib s ss ensure enforce_dim)
  then show ?case by (simp split: prod.splits sum.splits)
next
  case (4 nib s ss ensure enforce_dim)
  obtain s' w r where l: "load_anyimg nib s ensure enforce_dim = (s', w, r)"
    by (cases "load_anyimg nib s ensure enforce_dim") auto
  have s': "s' = s" using "4.IH"(1) "4.prems" l by simp
  show ?case
  proof (cases r)
    case (Inl e)
    then show ?thesis using l s' by simp
  next
    case (Inr b)
    obtain ss' w' r' where ll: "load_list nib ss ensure enforce_dim = (ss', w', r')"
      by (cases "load_list nib ss ensure enforce_dim") auto
    have "fst (load_list nib ss ensure enforce_dim) = ss"
      using "4.IH"(2) [OF l [symmetric] _ Inr] Inr "4.prems" by simp
    then have "ss' = ss" using ll by simp
    then show ?thesis using l s' Inr ll by (cases r') simp_all
  qed
qed (simp_all add: load_anyimg_other_unchanged load_anyimg_image_unchanged
       del: load_anyimg.simps)

lemma all_images_mono:
  assumes "all_images P source" and "\<And>img. P img \<Longrightarrow> Q img"
  shows "all_images Q source"
  using assms(1)
proof (induction source)
  case (SrcSeq xs)
  then show ?case using assms(2) by auto
qed (simp_all add: assms(2))

lemma add_fa_loop_unchanged:
  assumes "\<forall>p\<in>set fas. all_images (\<lambda>img. \<not> squeezable img) (snd p)"
  shows "fst (add_fa_loop nib fas ds) = fas"
  using assms
proof (induction fas arbitrary: ds)
  case Nil
  then show ?case by simp
next
  case (Cons p fas)
  obtain fattr source where p: "p = (fattr, source)" by (cases p) auto
  obtain s' w r where l: "load_anyimg nib source True None = (s', w, r)"
    by (cases "load_anyimg nib source True None") auto
  have "all_images (\<lambda>img. \<not> squeezable img) source" using Cons.prems p by simp
  then have "all_images (\<lambda>img. \<not> squeezable img \<and>
        ((None :: nat option) = None \<or> length (shape (img_data img)) = 4)) source"
    by simp
  from load_anyimg_unchanged(1) [OF this, of nib True] l have s': "s' = source" by simp
  have ih0: "\<And>ds. fst (add_fa_loop nib fas ds) = fas" using Cons.IH Cons.prems by simp
  have ih: "\<And>ds x a b. add_fa_loop nib fas ds = (x, a, b) \<Longrightarrow> x = fas"
  proof -
    fix ds x a b assume "add_fa_loop nib fas ds = (x, a, b)"
    then have "fst (add_fa_loop nib fas ds) = x" by simp
    then show "x = fas" using ih0 [of ds] by simp
  qed
  show ?case
    unfolding p using l s'
    by (auto split: sum.splits option.splits prod.splits dest: ih)
qed

lemma load_samples_unchanged:
  assumes "all_images (\<lambda>img. length (shape (img_data img)) = 4) source"
  shows "fst (load_anyimg nib source ensure (Some 4)) = source"
proof -
  have "all_images (\<lambda>img. \<not> squeezable img \<and>
        (Some (4::nat) = None \<or> length (shape (img_data img)) = 4)) source"
    by (rule all_images_mono [OF assms]) (simp add: squeezable_def)
  then show ?thesis by (rule load_anyimg_unchanged(1))
qed

lemma load_mask_unchanged:
  assumes "all_images (\<lambda>img. \<not> squeezable img) source"
  shows "fst (load_anyimg nib source ensure None) = source"
proof -
  have "all_images (\<lambda>img. \<not> squeezable img \<and>
        ((None :: nat option) = None \<or> length (shape (img_data img)) = 4)) source"
    using assms by simp
  then show ?thesis by (rule load_anyimg_unchanged(1))
qed

text \<open>
  C2. The code at the input of the claim: with \<^verbatim>\<open>ensure=True\<close>, \<^verbatim>\<open>_load_anyimg\<close> returns
  \<^verbatim>\<open>None\<close> for the source \<^verbatim>\<open>None\<close> and for an object that is not an image, and raises nothing;
  \<^verbatim>\<open>fmri_dataset\<close> then fails with the TypeError of unpacking \<^verbatim>\<open>None\<close>, not with the
  ValueError that the docstring of \<^verbatim>\<open>_load_anyimg\<close> promises.
\<close>

theorem load_anyimg_ensure_returns_none:
  "load_anyimg nib SrcNone True enforce_dim = (SrcNone, [], Inr None) \<and>
   load_anyimg nib SrcOther True enforce_dim = (SrcOther, [], Inr None) \<and>
   outcome (fmri_dataset nib SrcNone targets chunks mask_src sprefix tprefix add_fa) = Inl TypeError"
  by (simp add: img2data_def enforce_loaded_def fmri_dataset_def)





lemma ravel_bound2:
  fixes a b A B :: nat
  assumes "a < A" and "b < B"
  shows "a * B + b < A * B"
proof -
  have "a * B + b < a * B + B" using assms(2) by simp
  also have "\<dots> = Suc a * B" by simp
  also have "\<dots> \<le> A * B" using assms(1) by (intro mult_le_mono1) simp
  finally show ?thesis .
qed

lemma nth_transpose2:
  assumes "i < r" and "j < c"
  shows "transpose2 r c xs ! (j * r + i) = xs ! (i * c + j)"
proof -
  have b: "j * r + i < r * c"
    using ravel_bound2 [OF assms(2) assms(1)] by (simp add: mult.commute)
  have "transpose2 r c xs ! (j * r + i) = xs ! (((j * r + i) mod r) * c + (j * r + i) div r)"
    using b by (simp add: transpose2_def)
  also have "(j * r + i) mod r = i" using assms(1) by simp
  also have "(j * r + i) div r = j" using assms(1) by simp
  finally show ?thesis .
qed

lemma item_rollaxis_last_to_front:
  assumes "shape arr = [X, Y, Z, T]" and "x < X" and "y < Y" and "z < Z" and "t < T"
  shows "item (rollaxis_last_to_front arr) [t, x, y, z] = item arr [x, y, z, t]"
proof -
  let ?i = "(x * Y + y) * Z + z"
  have i: "?i < (X * Y) * Z"
    by (rule ravel_bound2 [OF ravel_bound2 [OF assms(2) assms(3)] assms(4)])
  have l: "ravel [T, X, Y, Z] [t, x, y, z] = t * (X * Y * Z) + ?i"
    by (simp add: algebra_simps)
  have r: "ravel [X, Y, Z, T] [x, y, z, t] = ?i * T + t"
    by (simp add: algebra_simps)
  have sh: "shape (rollaxis_last_to_front arr) = [T, X, Y, Z]"
    by (simp add: rollaxis_last_to_front_def assms(1))
  have el: "elems (rollaxis_last_to_front arr) = transpose2 (X * Y * Z) T (elems arr)"
    by (simp add: rollaxis_last_to_front_def assms(1) mult.assoc)
  have "item (rollaxis_last_to_front arr) [t, x, y, z]
        = transpose2 (X * Y * Z) T (elems arr) ! (t * (X * Y * Z) + ?i)"
    unfolding item_def sh el l ..
  also have "\<dots> = elems arr ! (?i * T + t)"
    by (rule nth_transpose2 [OF i assms(5)])
  also have "\<dots> = item arr [x, y, z, t]"
    unfolding item_def assms(1) r ..
  finally show ?thesis .
qed

text \<open>
  C5 (amended). An image whose data has shape \<open>(X, Y, Z, 1, T)\<close>, loaded with no enforced
  dimensionality or with 4 dimensions enforced, issues the warning, has the data shape of
  its header set to \<open>(X, Y, Z, T)\<close>, and yields the time-major array of shape
  \<open>(T, X, Y, Z)\<close> whose element \<open>(t, x, y, z)\<close> is element \<open>(x, y, z, 0, t)\<close> of the data.
\<close>

theorem load_anyimg_squeeze_5d:
  assumes "shape (img_data img) = [X, Y, Z, 1, T]"
    and "wf_array (img_data img)"
    and "enforce_dim = None \<or> enforce_dim = Some 4"
    and "squeezed = \<lparr>shape = [X, Y, Z, T], elems = elems (img_data img)\<rparr>"
    and "img' = img\<lparr>img_header := set_data_shape nib (img_header img) [X, Y, Z, T]\<rparr>"
  shows "load_anyimg nib (SrcImg img) ensure enforce_dim =
           (SrcImg img', [warn_5d],
            Inr (Some \<lparr>ld_data = rollaxis_last_to_front squeezed,
                       ld_hdr = img_header img', ld_img = img', ld_own = False\<rparr>)) \<and>
         shape (rollaxis_last_to_front squeezed) = [T, X, Y, Z] \<and>
         (\<forall>x<X. \<forall>y<Y. \<forall>z<Z. \<forall>t<T.
            item (rollaxis_last_to_front squeezed) [t, x, y, z] = item (img_data img) [x, y, z, 0, t])"
proof -
  have sq: "shape squeezed = [X, Y, Z, T]" by (simp add: assms(4))
  have rs: "np_reshape (img_data img) [X, Y, Z, T] = Inr squeezed"
    using assms(1,2) by (simp add: np_reshape_def wf_array_def assms(4))
  have sh: "shape (rollaxis_last_to_front squeezed) = [T, X, Y, Z]"
    by (simp add: rollaxis_last_to_front_def sq)
  have i2d: "img2data_image nib img =
      (img', [warn_5d],
       Inr \<lparr>ld_data = rollaxis_last_to_front squeezed,
            ld_hdr = img_header img', ld_img = img', ld_own = False\<rparr>)"
    using assms(1) rs sq by (simp add: img2data_image_def squeezable_def Let_def get_txyz_shaped_def assms(5))
  have enf: "enforce_loaded enforce_dim (Some \<lparr>ld_data = rollaxis_last_to_front squeezed,
            ld_hdr = img_header img', ld_img = img', ld_own = False\<rparr>)
       = Inr (Some \<lparr>ld_data = rollaxis_last_to_front squeezed,
            ld_hdr = img_header img', ld_img = img', ld_own = False\<rparr>)"
    using assms(3) sh by (auto simp: enforce_loaded_def enforce_shape_def)
  have l: "load_anyimg nib (SrcImg img) ensure enforce_dim =
           (SrcImg img', [warn_5d],
            Inr (Some \<lparr>ld_data = rollaxis_last_to_front squeezed,
                       ld_hdr = img_header img', ld_img = img', ld_own = False\<rparr>))"
    using i2d enf by (simp add: img2data_def)
  have it: "\<forall>x<X. \<forall>y<Y. \<forall>z<Z. \<forall>t<T.
            item (rollaxis_last_to_front squeezed) [t, x, y, z] = item (img_data img) [x, y, z, 0, t]"
  proof (intro allI impI)
    fix x y z t assume b: "x < X" "y < Y" "z < Z" "t < T"
    have "item (rollaxis_last_to_front squeezed) [t, x, y, z] = item squeezed [x, y, z, t]"
      by (rule item_rollaxis_last_to_front [OF sq b])
    also have "\<dots> = item (img_data img) [x, y, z, 0, t]"
      by (simp add: item_def assms(1) assms(4))
    finally show "item (rollaxis_last_to_front squeezed) [t, x, y, z]
        = item (img_data img) [x, y, z, 0, t]" .
  qed
  show ?thesis using l sh it by (intro conjI)
qed

text \<open>
  C5 as stated fails: data of shape \<open>(1, 1, 2, 1, 3)\<close> is returned with shape
  \<open>(3, 1, 1, 2)\<close>, not \<open>(1, 1, 2, 3)\<close>.
\<close>

theorem load_anyimg_squeeze_5d_counterexample:
  "shape (ld_data (the (projr (snd (snd (load_anyimg nib_demo
      (SrcImg \<lparr>img_class = ''Nifti1Image'',
               img_data = \<lparr>shape = [1, 1, 2, 1, 3], elems = [1, 2, 3, 4, 5, 6]\<rparr>,
               img_header = \<lparr>hdr_class = ''Nifti1Header'', hdr_items = Some []\<rparr>,
               img_affine = []\<rparr>) False None)))))) = [3, 1, 1, 2] \<and>
   [3, 1, 1, 2] \<noteq> [1, 1, 2, 3::nat]"
  by (simp add: img2data_def img2data_image_def squeezable_def Let_def np_reshape_def get_txyz_shaped_def
        rollaxis_last_to_front_def enforce_loaded_def)

theorem load_anyimg_squeeze_5d_witness:
  "load_anyimg nib_demo
      (SrcImg \<lparr>img_class = ''Nifti1Image'',
               img_data = \<lparr>shape = [1, 1, 2, 1, 3], elems = [1, 2, 3, 4, 5, 6]\<rparr>,
               img_header = \<lparr>hdr_class = ''Nifti1Header'',
                              hdr_items = Some [(''dim'', PyTuple [])]\<rparr>,
               img_affine = []\<rparr>) True (Some 4)
   = (SrcImg \<lparr>img_class = ''Nifti1Image'',
               img_data = \<lparr>shape = [1, 1, 2, 1, 3], elems = [1, 2, 3, 4, 5, 6]\<rparr>,
               img_header = \<lparr>hdr_class = ''Nifti1Header'',
                              hdr_items = Some [(''dim'', PyTuple [PyInt 1, PyInt 1, PyInt 2, PyInt 3])]\<rparr>,
               img_affine = []\<rparr>,
      [warn_5d],
      Inr (Some \<lparr>ld_data = \<lparr>shape = [3, 1, 1, 2], elems = [1, 4, 2, 5, 3, 6]\<rparr>,
                 ld_hdr = \<lparr>hdr_class = ''Nifti1Header'',
                              hdr_items = Some [(''dim'', PyTuple [PyInt 1, PyInt 1, PyInt 2, PyInt 3])]\<rparr>,
                 ld_img = \<lparr>img_class = ''Nifti1Image'',
                           img_data = \<lparr>shape = [1, 1, 2, 1, 3], elems = [1, 2, 3, 4, 5, 6]\<rparr>,
                           img_header = \<lparr>hdr_class = ''Nifti1Header'',
                              hdr_items = Some [(''dim'', PyTuple [PyInt 1, PyInt 1, PyInt 2, PyInt 3])]\<rparr>,
                           img_affine = []\<rparr>,
                 ld_own = False\<rparr>))"
proof -
  let ?img = "\<lparr>img_class = ''Nifti1Image'',
               img_data = \<lparr>shape = [1, 1, 2, 1, 3], elems = [1, 2, 3, 4, 5, 6]\<rparr>,
               img_header = \<lparr>hdr_class = ''Nifti1Header'',
                              hdr_items = Some [(''dim'', PyTuple [])]\<rparr>,
               img_affine = []\<rparr>"
  have 1: "shape (img_data ?img) = [1, 1, 2, 1, 3]" by simp
  have 2: "wf_array (img_data ?img)" by (simp add: wf_array_def)
  have 3: "Some 4 = None \<or> Some (4::nat) = Some 4" by simp
  have r: "rollaxis_last_to_front \<lparr>shape = [1, 1, 2, 3], elems = elems (img_data ?img)\<rparr>
       = \<lparr>shape = [3, 1, 1, 2], elems = [1, 4, 2, 5, 3, 6]\<rparr>"
    by (simp add: rollaxis_last_to_front_def transpose2_def upt_rec)
  have h: "set_data_shape nib_demo (img_header ?img) [1, 1, 2, 3]
       = \<lparr>hdr_class = ''Nifti1Header'',
           hdr_items = Some [(''dim'', PyTuple [PyInt 1, PyInt 1, PyInt 2, PyInt 3])]\<rparr>"
    by (simp add: nib_demo_def)
  from load_anyimg_squeeze_5d [OF 1 2 3 refl refl, of nib_demo True]
  show ?thesis unfolding r h by simp
qed

text \<open>
  C9 (amended). When every image of the samples source has four-dimensional data and no
  image of the mask source or of the additional feature attributes has five-dimensional
  data with a fourth axis of length 1, \<^verbatim>\<open>fmri_dataset\<close> leaves all its sources as they are,
  whether it returns a dataset or raises.
\<close>

theorem fmri_dataset_sources_unchanged:
  assumes "all_images (\<lambda>img. length (shape (img_data img)) = 4) samples_src"
    and "all_images (\<lambda>img. \<not> squeezable img) mask_src"
    and "\<forall>fas. add_fa = Some fas \<longrightarrow>
           (\<forall>p\<in>set fas. all_images (\<lambda>img. \<not> squeezable img) (snd p))"
    and "res = fmri_dataset nib samples_src targets chunks mask_src sprefix tprefix add_fa"
  shows "samples_after res = samples_src \<and> mask_after res = mask_src \<and>
         add_fa_after res = add_fa"
proof -
  obtain s' w1 r1 where l1: "load_anyimg nib samples_src True (Some 4) = (s', w1, r1)"
    by (cases "load_anyimg nib samples_src True (Some 4)") auto
  have s': "s' = samples_src" using load_samples_unchanged [OF assms(1), of nib True] l1 by simp
  obtain m' w2 r2 where l2: "load_anyimg nib mask_src False None = (m', w2, r2)"
    by (cases "load_anyimg nib mask_src False None") auto
  have m': "m' = mask_src" using load_mask_unchanged [OF assms(2), of nib False] l2 by simp
  have fa: "\<And>fas ds x a b. add_fa = Some fas \<Longrightarrow> add_fa_loop nib fas ds = (x, a, b) \<Longrightarrow> x = fas"
  proof -
    fix fas ds x a b assume a: "add_fa = Some fas" and b: "add_fa_loop nib fas ds = (x, a, b)"
    from a assms(3) have "\<forall>p\<in>set fas. all_images (\<lambda>img. \<not> squeezable img) (snd p)" by simp
    from add_fa_loop_unchanged [OF this, of nib ds] b show "x = fas" by simp
  qed
  show ?thesis
    unfolding assms(4) fmri_dataset_def l1 l2 s' m'
    by (auto split: sum.splits option.splits prod.splits dest: fa)
qed

theorem fmri_dataset_sources_unchanged_witness:
  "samples_after (fmri_dataset nib_demo
      (SrcImg \<lparr>img_class = ''Nifti1Image'',
               img_data = \<lparr>shape = [1, 2, 1, 2], elems = [1, 2, 3, 4]\<rparr>,
               img_header = \<lparr>hdr_class = ''Nifti1Header'', hdr_items = Some []\<rparr>,
               img_affine = []\<rparr>) None None SrcNone None None None)
   = SrcImg \<lparr>img_class = ''Nifti1Image'',
             img_data = \<lparr>shape = [1, 2, 1, 2], elems = [1, 2, 3, 4]\<rparr>,
             img_header = \<lparr>hdr_class = ''Nifti1Header'', hdr_items = Some []\<rparr>,
             img_affine = []\<rparr>"
  using fmri_dataset_sources_unchanged [of
      "SrcImg \<lparr>img_class = ''Nifti1Image'',
               img_data = \<lparr>shape = [1, 2, 1, 2], elems = [1, 2, 3, 4]\<rparr>,
               img_header = \<lparr>hdr_class = ''Nifti1Header'', hdr_items = Some []\<rparr>,
               img_affine = []\<rparr>" SrcNone None _ nib_demo None None None None]
  by simp

text \<open>
  C9 as stated fails: \<^verbatim>\<open>fmri_dataset\<close> returns a dataset for a three-dimensional image and
  leaves the data array of that image with the shape \<open>(1, 2, 1, 2)\<close> instead of \<open>(2, 1, 2)\<close>.
\<close>

theorem fmri_dataset_reshapes_input_counterexample:
  "samples_after (fmri_dataset nib_demo
      (SrcImg \<lparr>img_class = ''Nifti1Image'',
               img_data = \<lparr>shape = [2, 1, 2], elems = [1, 2, 3, 4]\<rparr>,
               img_header = \<lparr>hdr_class = ''Nifti1Header'', hdr_items = Some []\<rparr>,
               img_affine = []\<rparr>) None None SrcNone None None None)
   = SrcImg \<lparr>img_class = ''Nifti1Image'',
             img_data = \<lparr>shape = [1, 2, 1, 2], elems = [1, 2, 3, 4]\<rparr>,
             img_header = \<lparr>hdr_class = ''Nifti1Header'', hdr_items = Some []\<rparr>,
             img_affine = []\<rparr> \<and>
   \<not> isl (outcome (fmri_dataset nib_demo
      (SrcImg \<lparr>img_class = ''Nifti1Image'',
               img_data = \<lparr>shape = [2, 1, 2], elems = [1, 2, 3, 4]\<rparr>,
               img_header = \<lparr>hdr_class = ''Nifti1Header'', hdr_items = Some []\<rparr>,
               img_affine = []\<rparr>) None None SrcNone None None None)) \<and>
   [1, 2, 1, 2] \<noteq> [2, 1, 2::nat]"
  by (simp add: fmri_dataset_def img2data_def img2data_image_def squeezable_def
        get_txyz_shaped_def enforce_loaded_def enforce_shape_def build_sa_def
        flatten_dataset_def apply_mask_def store_props_def strip_nibabel_def hdr2dict_def
        scl_nan_def dict_get_def store_extents_def nib_demo_def Let_def)

section \<open>Image class resolution\<close>

text \<open>
  C8 (amended). With no explicit image class: a stored \<^verbatim>\<open>imgtype\<close> that is not a string is
  used as the class (the TypeError of the lookup is caught); a stored name that the library
  defines resolves to the library's object; a stored name that the library does not define
  makes the lookup raise an AttributeError, which is not caught, and \<^verbatim>\<open>map2nifti\<close> returns
  no image.
\<close>

theorem map2nifti_imgtype_resolution:
  "(a_imgtype ds = Some (TObj c) \<longrightarrow> resolve_imgtype nib ds None = Inr c) \<and>
   (a_imgtype ds = Some (TName name) \<and> nib_getattr nib name = Some c \<longrightarrow>
      resolve_imgtype nib ds None = Inr c) \<and>
   (a_imgtype ds = Some (TName name) \<and> nib_getattr nib name = None \<longrightarrow>
      resolve_imgtype nib ds None = Inl AttributeError \<and>
      (\<forall>img. map2nifti nib ds data_in imghdr None \<noteq> Inr img))"
proof -
  have a: "a_imgtype ds = Some (TName name) \<and> nib_getattr nib name = None \<Longrightarrow>
        resolve_imgtype nib ds None = Inl AttributeError"
    by (simp add: resolve_imgtype_def)
  have b: "resolve_imgtype nib ds None = Inl AttributeError \<Longrightarrow>
        map2nifti nib ds data_in imghdr None \<noteq> Inr img" for img
    by (simp add: map2nifti_def Let_def split: option.split sum.split)
  show ?thesis using a b by (simp add: resolve_imgtype_def)
qed

theorem map2nifti_imgtype_resolution_witness:
  "resolve_imgtype nib_demo
     \<lparr>samples = \<lparr>shape = [1, 2], elems = [1, 2]\<rparr>, sa = [], fa = [],
      a_mapper = Some \<lparr>flat_shape = [1, 1, 2], flat_space = None, selection = None\<rparr>,
      a_imgaffine = None, a_imgtype = Some (TObj (ImgClass ''Nifti1Image'' True)),
      a_imghdr = None, a_other = []\<rparr> None
   = Inr (ImgClass ''Nifti1Image'' True) \<and>
   resolve_imgtype nib_demo
     \<lparr>samples = \<lparr>shape = [1, 2], elems = [1, 2]\<rparr>, sa = [], fa = [],
      a_mapper = Some \<lparr>flat_shape = [1, 1, 2], flat_space = None, selection = None\<rparr>,
      a_imgaffine = None, a_imgtype = Some (TName ''NoSuchImage''),
      a_imghdr = None, a_other = []\<rparr> None
   = Inl AttributeError"
  using map2nifti_imgtype_resolution [of
     "\<lparr>samples = \<lparr>shape = [1, 2], elems = [1, 2]\<rparr>, sa = [], fa = [],
      a_mapper = Some \<lparr>flat_shape = [1, 1, 2], flat_space = None, selection = None\<rparr>,
      a_imgaffine = None, a_imgtype = Some (TObj (ImgClass ''Nifti1Image'' True)),
      a_imghdr = None, a_other = []\<rparr>" "ImgClass ''Nifti1Image'' True" nib_demo]
    map2nifti_imgtype_resolution [of
     "\<lparr>samples = \<lparr>shape = [1, 2], elems = [1, 2]\<rparr>, sa = [], fa = [],
      a_mapper = Some \<lparr>flat_shape = [1, 1, 2], flat_space = None, selection = None\<rparr>,
      a_imgaffine = None, a_imgtype = Some (TName ''NoSuchImage''),
      a_imghdr = None, a_other = []\<rparr>" _ nib_demo "''NoSuchImage''"]
  by (simp add: nib_demo_def)

text \<open>
  C8 as stated fails: for the stored name \<^verbatim>\<open>NoSuchImage\<close> the AttributeError of the lookup
  leaves \<^verbatim>\<open>map2nifti\<close>.
\<close>

theorem map2nifti_imgtype_unresolved_counterexample:
  "map2nifti nib_demo
     \<lparr>samples = \<lparr>shape = [1, 2], elems = [1, 2]\<rparr>, sa = [], fa = [],
      a_mapper = Some \<lparr>flat_shape = [1, 1, 2], flat_space = None, selection = None\<rparr>,
      a_imgaffine = None, a_imgtype = Some (TName ''NoSuchImage''), a_imghdr = None,
      a_other = []\<rparr> None None None
   = Inl AttributeError"
  by (simp add: map2nifti_def mapper_reverse_def n_features_def resolve_imghdr_def
        resolve_imgtype_def nib_demo_def)

section \<open>Stripping is idempotent\<close>

lemma strip_nibabel_twice:
  "strip_nibabel nib (snd (strip_nibabel nib ds)) = ([], snd (strip_nibabel nib ds))"
proof -
  define ds1 where "ds1 = (case a_imgtype ds of
                   Some (TObj c) \<Rightarrow>
                     if is_type c then ds\<lparr>a_imgtype := Some (TName (type_name c))\<rparr> else ds
                 | other \<Rightarrow> ds)"
  have ty: "(case a_imgtype ds1 of
                   Some (TObj c) \<Rightarrow>
                     if is_type c then ds1\<lparr>a_imgtype := Some (TName (type_name c))\<rparr> else ds1
                 | other \<Rightarrow> ds1) = ds1"
    by (simp add: ds1_def split: option.splits typeval.splits)
  have hd1: "a_imghdr ds1 = a_imghdr ds"
    by (simp add: ds1_def split: option.splits typeval.splits)
  show ?thesis
  proof (cases "a_imghdr ds")
    case None
    then have "strip_nibabel nib ds = ([], ds1)"
      using hd1 by (simp add: strip_nibabel_def ds1_def [symmetric])
    then show ?thesis using ty hd1 None by (simp add: strip_nibabel_def [of nib ds1])
  next
    case (Some hv)
    show ?thesis
    proof (cases hv)
      case (HDict kv)
      then have "strip_nibabel nib ds = ([], ds1)"
        using hd1 Some by (simp add: strip_nibabel_def ds1_def [symmetric])
      then show ?thesis using ty hd1 Some HDict by (simp add: strip_nibabel_def [of nib ds1])
    next
      case (HObj hdr)
      define ds2 where "ds2 = (case get_best_affine nib hdr of
                            Some aff \<Rightarrow> ds1\<lparr>a_imgaffine := Some aff\<rparr>
                          | None \<Rightarrow> ds1)"
      have t2: "a_imgtype ds2 = a_imgtype ds1"
        by (simp add: ds2_def split: option.splits)
      have ty2: "\<And>x. (case a_imgtype ds1 of
                   Some (TObj c) \<Rightarrow>
                     if is_type c then (ds2\<lparr>a_imghdr := x\<rparr>)\<lparr>a_imgtype := Some (TName (type_name c))\<rparr>
                     else ds2\<lparr>a_imghdr := x\<rparr>
                 | other \<Rightarrow> ds2\<lparr>a_imghdr := x\<rparr>) = ds2\<lparr>a_imghdr := x\<rparr>"
        by (simp add: ds1_def split: option.splits typeval.splits)
      have s: "snd (strip_nibabel nib ds) =
                 (case snd (hdr2dict hdr) of
                    Inr kv \<Rightarrow> ds2\<lparr>a_imghdr := Some (HDict kv)\<rparr>
                  | Inl e \<Rightarrow> ds2\<lparr>a_imghdr := None\<rparr>)"
        using hd1 Some HObj
        by (simp add: strip_nibabel_def ds1_def [symmetric] ds2_def [symmetric]
              split: prod.splits sum.splits)
      show ?thesis
        unfolding s using ty2 t2
        by (simp add: strip_nibabel_def split: sum.splits)
    qed
  qed
qed

lemma strip_nibabel_converted:
  "(\<forall>n. a_imgtype ds = Some (TName n) \<longrightarrow>
        a_imgtype (snd (strip_nibabel nib ds)) = Some (TName n)) \<and>
   (a_imghdr ds = None \<longrightarrow>
        fst (strip_nibabel nib ds) = [] \<and> a_imghdr (snd (strip_nibabel nib ds)) = None \<and>
        a_imgaffine (snd (strip_nibabel nib ds)) = a_imgaffine ds) \<and>
   (\<forall>kv. a_imghdr ds = Some (HDict kv) \<longrightarrow>
        fst (strip_nibabel nib ds) = [] \<and>
        a_imghdr (snd (strip_nibabel nib ds)) = Some (HDict kv) \<and>
        a_imgaffine (snd (strip_nibabel nib ds)) = a_imgaffine ds)"
  by (simp add: strip_nibabel_def
        split: option.splits typeval.splits hdrval.splits prod.splits sum.splits)

text \<open>
  C10. Running \<^verbatim>\<open>strip_nibabel\<close> on a dataset it has already converted issues no warning
  and changes nothing. On any dataset, an \<^verbatim>\<open>imgtype\<close> that is a string stays as it is; when
  \<^verbatim>\<open>imghdr\<close> is absent or is a dictionary, no warning is issued and \<^verbatim>\<open>imghdr\<close> and
  \<^verbatim>\<open>imgaffine\<close> stay as they are.
\<close>

theorem strip_nibabel_idempotent:
  "strip_nibabel nib (snd (strip_nibabel nib ds)) = ([], snd (strip_nibabel nib ds)) \<and>
   (\<forall>n. a_imgtype ds = Some (TName n) \<longrightarrow>
        a_imgtype (snd (strip_nibabel nib ds)) = Some (TName n)) \<and>
   (a_imghdr ds = None \<longrightarrow>
        fst (strip_nibabel nib ds) = [] \<and> a_imghdr (snd (strip_nibabel nib ds)) = None \<and>
        a_imgaffine (snd (strip_nibabel nib ds)) = a_imgaffine ds) \<and>
   (\<forall>kv. a_imghdr ds = Some (HDict kv) \<longrightarrow>
        fst (strip_nibabel nib ds) = [] \<and>
        a_imghdr (snd (strip_nibabel nib ds)) = Some (HDict kv) \<and>
        a_imgaffine (snd (strip_nibabel nib ds)) = a_imgaffine ds)"
  using strip_nibabel_twice [of nib ds] strip_nibabel_converted [of ds nib]
  by (rule conjI)

theorem strip_nibabel_idempotent_witness:
  "strip_nibabel nib_demo
     \<lparr>samples = \<lparr>shape = [1, 2], elems = [1, 2]\<rparr>, sa = [], fa = [],
      a_mapper = None, a_imgaffine = None,
      a_imgtype = Some (TObj (ImgClass ''Nifti1Image'' True)),
      a_imghdr = Some (HObj \<lparr>hdr_class = ''Nifti1Header'',
                             hdr_items = Some [(''descrip'', PyStr ''x'')]\<rparr>),
      a_other = []\<rparr>
   = ([], \<lparr>samples = \<lparr>shape = [1, 2], elems = [1, 2]\<rparr>, sa = [], fa = [],
      a_mapper = None, a_imgaffine = None,
      a_imgtype = Some (TName ''Nifti1Image''),
      a_imghdr = Some (HDict [(''descrip'', PyStr ''x''), (''hdrtype'', PyStr ''Nifti1Header'')]),
      a_other = []\<rparr>) \<and>
   strip_nibabel nib_demo
     \<lparr>samples = \<lparr>shape = [1, 2], elems = [1, 2]\<rparr>, sa = [], fa = [],
      a_mapper = None, a_imgaffine = None,
      a_imgtype = Some (TName ''Nifti1Image''),
      a_imghdr = Some (HDict [(''descrip'', PyStr ''x''), (''hdrtype'', PyStr ''Nifti1Header'')]),
      a_other = []\<rparr>
   = ([], \<lparr>samples = \<lparr>shape = [1, 2], elems = [1, 2]\<rparr>, sa = [], fa = [],
      a_mapper = None, a_imgaffine = None,
      a_imgtype = Some (TName ''Nifti1Image''),
      a_imghdr = Some (HDict [(''descrip'', PyStr ''x''), (''hdrtype'', PyStr ''Nifti1Header'')]),
      a_other = []\<rparr>)"
  using strip_nibabel_idempotent [of nib_demo
     "\<lparr>samples = \<lparr>shape = [1, 2], elems = [1, 2]\<rparr>, sa = [], fa = [],
      a_mapper = None, a_imgaffine = None,
      a_imgtype = Some (TObj (ImgClass ''Nifti1Image'' True)),
      a_imghdr = Some (HObj \<lparr>hdr_class = ''Nifti1Header'',
                             hdr_items = Some [(''descrip'', PyStr ''x'')]\<rparr>),
      a_other = []\<rparr>"]
  by (simp add: strip_nibabel_def hdr2dict_def scl_nan_def dict_get_def nib_demo_def)

section \<open>Round trip through a dataset\<close>











end
